theory Spec2Isabelle
  imports Main "HOL-Library.AList"
begin

section \<open>Go strings: strings.TrimSpace and strings.Split\<close>

text \<open>
  A Go string is a sequence of bytes; \<open>string\<close> (a list of 8-bit characters) is that
  sequence. \<open>strings.TrimSpace\<close> removes the leading and the trailing runes that
  \<open>unicode.IsSpace\<close> accepts. The list below holds the UTF-8 encodings of exactly those
  runes: U+0009..U+000D, U+0020, U+0085, U+00A0, U+1680, U+2000..U+200A, U+2028, U+2029,
  U+202F, U+205F and U+3000.
\<close>

definition space_runes :: "string list" where
  "space_runes =
     [[CHR 0x09], [CHR 0x0A], [CHR 0x0B], [CHR 0x0C], [CHR 0x0D], [CHR 0x20],
      [CHR 0xC2, CHR 0x85], [CHR 0xC2, CHR 0xA0],
      [CHR 0xE1, CHR 0x9A, CHR 0x80],
      [CHR 0xE2, CHR 0x80, CHR 0x80], [CHR 0xE2, CHR 0x80, CHR 0x81],
      [CHR 0xE2, CHR 0x80, CHR 0x82], [CHR 0xE2, CHR 0x80, CHR 0x83],
      [CHR 0xE2, CHR 0x80, CHR 0x84], [CHR 0xE2, CHR 0x80, CHR 0x85],
      [CHR 0xE2, CHR 0x80, CHR 0x86], [CHR 0xE2, CHR 0x80, CHR 0x87],
      [CHR 0xE2, CHR 0x80, CHR 0x88], [CHR 0xE2, CHR 0x80, CHR 0x89],
      [CHR 0xE2, CHR 0x80, CHR 0x8A],
      [CHR 0xE2, CHR 0x80, CHR 0xA8], [CHR 0xE2, CHR 0x80, CHR 0xA9],
      [CHR 0xE2, CHR 0x80, CHR 0xAF],
      [CHR 0xE2, CHR 0x81, CHR 0x9F],
      [CHR 0xE3, CHR 0x80, CHR 0x80]]"

definition IsSpace :: "string \<Rightarrow> bool" where
  "IsSpace r = (r \<in> set space_runes)"

text \<open>
  \<open>TrimLeftSpace\<close> drops space runes from the front for as long as the text starts
  with one (a rune is 1 to 3 bytes here); \<open>TrimRightSpace\<close> does the same from the end.
\<close>

function TrimLeftSpace :: "string \<Rightarrow> string" where
  "TrimLeftSpace s =
     (if s = [] then []
      else if IsSpace (take 1 s) then TrimLeftSpace (drop 1 s)
      else if IsSpace (take 2 s) then TrimLeftSpace (drop 2 s)
      else if IsSpace (take 3 s) then TrimLeftSpace (drop 3 s)
      else s)"
  by pat_completeness auto
termination
  by (relation "measure length") auto

function TrimRightSpace :: "string \<Rightarrow> string" where
  "TrimRightSpace s =
     (if s = [] then []
      else if IsSpace (drop (length s - 1) s) then TrimRightSpace (take (length s - 1) s)
      else if IsSpace (drop (length s - 2) s) then TrimRightSpace (take (length s - 2) s)
      else if IsSpace (drop (length s - 3) s) then TrimRightSpace (take (length s - 3) s)
      else s)"
  by pat_completeness auto
termination
  by (relation "measure length") auto

definition TrimSpace :: "string \<Rightarrow> string" where
  "TrimSpace s = TrimRightSpace (TrimLeftSpace s)"

text \<open>
  \<open>strings.Split(s, sep)\<close> for a one-byte separator: the substrings between the
  separators, one more than there are separators (so \<open>[""]\<close> for the empty text).
\<close>

fun Split :: "string \<Rightarrow> char \<Rightarrow> string list" where
  "Split [] sep = [[]]"
| "Split (c # cs) sep =
     (if c = sep then [] # Split cs sep
      else (case Split cs sep of
              [] \<Rightarrow> [[c]]
            | p # ps \<Rightarrow> (c # p) # ps))"

section \<open>Decoded JSON values and the Go library\<close>

text \<open>
  \<open>encoding/json\<close> decodes into \<open>any\<close> the values nil, bool, float64, string,
  \<open>[]any\<close> and \<open>map[string]any\<close>. The type of float64 values is the parameter
  \<open>'f\<close>. A \<open>map[string]any\<close> is kept as its entries in ascending key order (keys
  distinct), the order in which \<open>fmt\<close> and \<open>json.Marshal\<close> print a map;
  \<open>map_of m key\<close> is \<open>m[key]\<close>, and \<open>None\<close> the absence of the key.
\<close>

datatype 'f jvalue =
    JNull
  | JBool bool
  | JNumber 'f
  | JString string
  | JArray "'f jvalue list"
  | JObject "(string \<times> 'f jvalue) list"

type_synonym 'f item = "(string \<times> 'f jvalue) list"

text \<open>
  \<open>fracToDecimal\<close> computes on float64 through \<open>strconv.ParseFloat\<close>, the float64
  operators, \<open>math.Round\<close> and \<open>strconv.FormatFloat(d, 'f', -1, 64)\<close>; \<open>fmt\<close>
  prints a float64 under \<open>%v\<close>, and \<open>json.Marshal\<close> serialises a record. None of
  this is code of the repository: the library functions come in a record that the
  functions of the program take. \<open>ParseFloat s = None\<close> stands for \<open>err != nil\<close>,
  \<open>of_lit n\<close> is the float64 constant \<open>n\<close>, \<open>is_zero b\<close> is \<open>b == 0\<close>.
\<close>

record 'f golib =
  ParseFloat :: "string \<Rightarrow> 'f option"
  FormatFloat :: "'f \<Rightarrow> string"
  fmt_float :: "'f \<Rightarrow> string"
  of_lit :: "nat \<Rightarrow> 'f"
  is_zero :: "'f \<Rightarrow> bool"
  fadd :: "'f \<Rightarrow> 'f \<Rightarrow> 'f"
  fmul :: "'f \<Rightarrow> 'f \<Rightarrow> 'f"
  fdiv :: "'f \<Rightarrow> 'f \<Rightarrow> 'f"
  Round :: "'f \<Rightarrow> 'f"
  Marshal :: "'f item \<Rightarrow> string"

fun join :: "string \<Rightarrow> string list \<Rightarrow> string" where
  "join sep [] = []"
| "join sep [x] = x"
| "join sep (x # y # ys) = x @ sep @ join sep (y # ys)"

text \<open>\<open>fmt.Sprintf("%v", v)\<close> for a decoded value \<open>v\<close>.\<close>

fun Sprintv :: "'f golib \<Rightarrow> 'f jvalue \<Rightarrow> string" where
  "Sprintv lib JNull = ''<nil>''"
| "Sprintv lib (JBool b) = (if b then ''true'' else ''false'')"
| "Sprintv lib (JNumber x) = fmt_float lib x"
| "Sprintv lib (JString s) = s"
| "Sprintv lib (JArray vs) = ''['' @ join '' '' (map (Sprintv lib) vs) @ '']''"
| "Sprintv lib (JObject kvs) =
     ''map['' @ join '' '' (map (\<lambda>kv. fst kv @ '':'' @ Sprintv lib (snd kv)) kvs) @ '']''"

text \<open>
  \<open>fmt.Sprintf("%v", item[key])\<close>: indexing a map with a key it does not have gives
  nil, which prints as \<open><nil>\<close>.
\<close>

definition field :: "'f golib \<Rightarrow> 'f item \<Rightarrow> string \<Rightarrow> string" where
  "field lib item key = (case map_of item key of None \<Rightarrow> ''<nil>'' | Some v \<Rightarrow> Sprintv lib v)"

section \<open>Helpers: fracToDecimal, getOddsField, parseUnixMaybe\<close>

definition fracToDecimal :: "'f golib \<Rightarrow> string \<Rightarrow> string \<times> string \<times> bool" where
  "fracToDecimal lib odds0 =
     (let odds = TrimSpace odds0;
          parts = Split odds (CHR ''/'')
      in if length parts \<noteq> 2 then ('''', odds, False)
         else (case (ParseFloat lib (parts ! 0), ParseFloat lib (parts ! 1)) of
                 (Some a, Some b) \<Rightarrow>
                   if is_zero lib b then ('''', odds, False)
                   else (let d = fadd lib (of_lit lib 1) (fdiv lib a b);
                             d = fdiv lib (Round lib (fmul lib d (of_lit lib 1000)))
                                   (of_lit lib 1000)
                         in (FormatFloat lib d, odds, True))
               | _ \<Rightarrow> ('''', odds, False)))"

fun getOddsField_keys :: "'f golib \<Rightarrow> 'f item \<Rightarrow> string list \<Rightarrow> string \<times> bool" where
  "getOddsField_keys lib item [] = ('''', False)"
| "getOddsField_keys lib item (key # keys) =
     (case map_of item key of
        Some v \<Rightarrow> (Sprintv lib v, True)
      | None \<Rightarrow> getOddsField_keys lib item keys)"

definition getOddsField :: "'f golib \<Rightarrow> 'f item \<Rightarrow> string \<times> bool" where
  "getOddsField lib item = getOddsField_keys lib item [''OD'', ''ODD'', ''ODDS'']"

text \<open>
  \<open>strconv.ParseInt(s, 10, 64)\<close>: an optional sign, then one or more decimal digits,
  and a value in the range of int64; \<open>None\<close> stands for \<open>err != nil\<close>.
\<close>

definition digit_val :: "char \<Rightarrow> nat option" where
  "digit_val c =
     (let n = (of_char c :: nat) in if 48 \<le> n \<and> n \<le> 57 then Some (n - 48) else None)"

fun parse_digits :: "nat \<Rightarrow> string \<Rightarrow> nat option" where
  "parse_digits acc [] = Some acc"
| "parse_digits acc (c # cs) =
     (case digit_val c of None \<Rightarrow> None | Some d \<Rightarrow> parse_digits (10 * acc + d) cs)"

definition ParseUint :: "string \<Rightarrow> nat option" where
  "ParseUint s = (if s = [] then None else parse_digits 0 s)"

definition ParseInt :: "string \<Rightarrow> int option" where
  "ParseInt s =
     (case s of
        [] \<Rightarrow> None
      | c # cs \<Rightarrow>
          (let neg = (c = CHR ''-'');
               ds = (if c = CHR ''+'' \<or> c = CHR ''-'' then cs else s)
           in case ParseUint ds of
                None \<Rightarrow> None
              | Some un \<Rightarrow>
                  if \<not> neg \<and> un \<ge> 2 ^ 63 then None
                  else if neg \<and> un > 2 ^ 63 then None
                  else Some (if neg then - int un else int un)))"

text \<open>A \<open>time.Time\<close> is its Unix time in seconds; a nil \<open>*time.Time\<close> is \<open>None\<close>.\<close>

definition parseUnixMaybe :: "string \<Rightarrow> int option" where
  "parseUnixMaybe s0 =
     (let s = TrimSpace s0
      in if s = [] then None
         else (case ParseInt s of
                 None \<Rightarrow> None
               | Some sec \<Rightarrow> if sec \<le> 0 then None else Some sec))"

section \<open>Models\<close>

record Game =
  GameID :: string
  Sport :: string
  Bookmaker :: string
  Source :: string
  League :: string
  Home :: string
  Away :: string
  Scores :: string
  TimeStatus :: string
  StartsAt :: "int option"

record LiveOdd =
  GameID :: string
  Sport :: string
  Bookmaker :: string
  MarketID :: string
  MarketName :: string
  SelectionID :: string
  SelectionName :: string
  Line :: string
  PriceDec :: string
  PriceFrac :: string
  FetchedAt :: int
  Raw :: string

record 'f APIResponse =
  Success :: int
  Results :: "'f item list list"

text \<open>An element of \<open>games_pre\<close>, decoded into the struct of \<open>fetchPreGames\<close>.\<close>

record pre_game =
  pre_game_id :: string
  pre_time :: string
  pre_time_status :: string
  pre_league :: string
  pre_home :: string
  pre_away :: string
  pre_scores :: string

section \<open>The store and the world around the program\<close>

text \<open>
  The two tables, each a list of rows under distinct keys: \<open>games\<close> under \<open>game_id\<close>,
  \<open>liveodds\<close> under \<open>(game_id, market_id, selection_id)\<close>. \<open>stmts\<close> counts the SQL
  statements that the program has sent to the pool.
\<close>

record game_row =
  g_sport :: string
  g_bookmaker :: string
  g_source :: string
  g_league :: string
  g_home_team :: string
  g_away_team :: string
  g_scores :: string
  g_time_status :: string
  g_starts_at :: "int option"
  g_updated_at :: int

record odds_row =
  o_sport :: string
  o_bookmaker :: string
  o_market_name :: string
  o_selection_name :: string
  o_line :: string
  o_price_dec :: string
  o_price_frac :: string
  o_fetched_at :: int
  o_raw :: string

record db =
  games :: "(string \<times> game_row) list"
  liveodds :: "((string \<times> string \<times> string) \<times> odds_row) list"
  stmts :: nat

text \<open>
  What the program does not decide: the Go library; for each request to the upstream
  API the outcome of \<open>http.Get\<close> followed by the JSON decoding (\<open>Inl\<close> the error);
  \<open>time.Now()\<close> while the odds of a game are fetched; and for the \<open>n\<close>-th SQL
  statement sent to the pool whether it fails (\<open>Some\<close> the error), the server's
  \<open>now()\<close> and its \<open>CURRENT_DATE\<close> (the instant at which that date begins). Times are
  Unix seconds.

  A failing statement sent with \<open>pool.Query\<close> fails in one of two ways, and
  \<open>db_rows_before_fault\<close> says which: \<open>None\<close> when \<open>Query\<close> itself returns the error
  (the statement could not be sent), \<open>Some k\<close> when \<open>Query\<close> returns rows, \<open>k\<close> of them
  are read, and then \<open>rows.Next()\<close> is false with the error left in \<open>rows.Err()\<close>.
  \<open>pool.Exec\<close>, \<open>QueryRow(...).Scan\<close> and the \<open>Exec\<close> of a batch return the error in
  both cases.
\<close>

record 'f world =
  w_lib :: "'f golib"
  http_pre :: "string \<Rightarrow> string + pre_game list"
  http_live :: "string \<Rightarrow> string + 'f item"
  http_liveodds :: "string \<Rightarrow> string + 'f APIResponse"
  time_now :: "string \<Rightarrow> int"
  db_fault :: "nat \<Rightarrow> string option"
  db_rows_before_fault :: "nat \<Rightarrow> nat option"
  db_now :: "nat \<Rightarrow> int"
  db_current_date :: "nat \<Rightarrow> int"

section \<open>Game fetching\<close>

definition fetchPreGames :: "'f world \<Rightarrow> string \<Rightarrow> string + Game list" where
  "fetchPreGames w sport =
     (case http_pre w sport of
        Inl err \<Rightarrow> Inl err
      | Inr resp_games \<Rightarrow>
          Inr (map (\<lambda>g. \<lparr>Game.GameID = pre_game_id g, Game.Sport = sport,
                            Game.Bookmaker = ''bet365'', Source = ''pre'',
                            League = pre_league g, Home = pre_home g, Away = pre_away g,
                            Scores = pre_scores g, TimeStatus = pre_time_status g,
                            StartsAt = parseUnixMaybe (pre_time g)\<rparr>) resp_games))"

text \<open>
  The loop of \<open>fetchLiveGames\<close> over \<open>root["games"]\<close>: an element that is not an
  object is skipped.
\<close>

fun live_items :: "'f golib \<Rightarrow> string \<Rightarrow> 'f jvalue list \<Rightarrow> Game list" where
  "live_items lib sport [] = []"
| "live_items lib sport (JObject m # rest) =
     (let gameID = field lib m ''game_id''
      in \<lparr>Game.GameID = gameID, Game.Sport = sport,
          Game.Bookmaker = ''bet365'', Source = ''live'',
          League = field lib m ''league'', Home = field lib m ''home'',
          Away = field lib m ''away'', Scores = field lib m ''scores'',
          TimeStatus = field lib m ''time_status'',
          StartsAt = parseUnixMaybe (field lib m ''time'')\<rparr>
        # live_items lib sport rest)"
| "live_items lib sport (_ # rest) = live_items lib sport rest"

definition fetchLiveGames :: "'f world \<Rightarrow> string \<Rightarrow> string + Game list" where
  "fetchLiveGames w sport =
     (case http_live w sport of
        Inl err \<Rightarrow> Inl err
      | Inr root \<Rightarrow>
          (case map_of root ''games'' of
             Some (JArray arrRaw) \<Rightarrow> Inr (live_items (w_lib w) sport arrRaw)
           | _ \<Rightarrow> Inr []))"

definition fetchAllGames :: "'f world \<Rightarrow> string + Game list" where
  "fetchAllGames w =
     (let all = [];
          all = (case fetchPreGames w ''soccer'' of Inr g \<Rightarrow> all @ g | Inl err \<Rightarrow> all);
          all = (case fetchPreGames w ''tennis'' of Inr g \<Rightarrow> all @ g | Inl err \<Rightarrow> all);
          all = (case fetchLiveGames w ''soccer'' of Inr g \<Rightarrow> all @ g | Inl err \<Rightarrow> all);
          all = (case fetchLiveGames w ''tennis'' of Inr g \<Rightarrow> all @ g | Inl err \<Rightarrow> all)
      in Inr all)"

section \<open>Live odds fetching\<close>

text \<open>
  One record of the response, processed in the state of the loops of \<open>fetchLiveOdds\<close>:
  the odds so far, \<open>currentMarketID\<close> and \<open>currentMarketName\<close>.
\<close>

definition odds_item ::
  "'f golib \<Rightarrow> string \<Rightarrow> string \<Rightarrow> int \<Rightarrow> LiveOdd list \<times> string \<times> string \<Rightarrow> 'f item
     \<Rightarrow> LiveOdd list \<times> string \<times> string" where
  "odds_item lib gameID sport now st item =
     (case st of (odds, currentMarketID, currentMarketName) \<Rightarrow>
        (let ty = field lib item ''type''
         in if ty = ''MG'' then (odds, field lib item ''ID'', field lib item ''NA'')
            else if ty = ''PA'' then
              (case getOddsField lib item of
                 (oddsStr, ok) \<Rightarrow>
                   if \<not> ok then st
                   else (case fracToDecimal lib oddsStr of
                           (priceDec, priceFrac, _) \<Rightarrow>
                             (odds @ [\<lparr>GameID = gameID, Sport = sport,
                                        Bookmaker = ''bet365'',
                                        MarketID = currentMarketID,
                                        MarketName = currentMarketName,
                                        SelectionID = field lib item ''ID'',
                                        SelectionName = field lib item ''NA'',
                                        Line = field lib item ''HA'',
                                        PriceDec = priceDec, PriceFrac = priceFrac,
                                        FetchedAt = now, Raw = Marshal lib item\<rparr>],
                              currentMarketID, currentMarketName)))
            else st))"

definition odds_group ::
  "'f golib \<Rightarrow> string \<Rightarrow> string \<Rightarrow> int \<Rightarrow> LiveOdd list \<times> string \<times> string \<Rightarrow> 'f item list
     \<Rightarrow> LiveOdd list \<times> string \<times> string" where
  "odds_group lib gameID sport now st grp = foldl (odds_item lib gameID sport now) st grp"

definition fetchLiveOdds :: "'f world \<Rightarrow> string \<Rightarrow> string \<Rightarrow> string + LiveOdd list" where
  "fetchLiveOdds w gameID sport =
     (case http_liveodds w gameID of
        Inl err \<Rightarrow> Inl err
      | Inr apiResp \<Rightarrow>
          Inr (fst (foldl (odds_group (w_lib w) gameID sport (time_now w gameID))
                      ([], '''', '''') (Results apiResp))))"

section \<open>Database reads and writes\<close>

text \<open>
  Every statement sent to the pool advances \<open>stmts\<close>; a statement that fails changes
  no row.
\<close>

definition tick :: "db \<Rightarrow> db" where
  "tick d = d\<lparr>stmts := Suc (stmts d)\<rparr>"

text \<open>
  \<open>SELECT game_id FROM games WHERE source='live' AND time_status='1'\<close>.
  \<open>fetchLiveGameIDs\<close> returns the error of \<open>pool.Query\<close> and never reads
  \<open>rows.Err()\<close>: when the statement fails after it was sent, the ids read so far are
  returned without an error.
\<close>

definition live_game_ids :: "db \<Rightarrow> string list" where
  "live_game_ids d =
     map fst (filter (\<lambda>(k, r). g_source r = ''live'' \<and> g_time_status r = ''1'') (games d))"

definition fetchLiveGameIDs :: "'f world \<Rightarrow> db \<Rightarrow> (string + string list) \<times> db" where
  "fetchLiveGameIDs w d =
     (case db_fault w (stmts d) of
        Some err \<Rightarrow>
          (case db_rows_before_fault w (stmts d) of
             None \<Rightarrow> (Inl err, tick d)
           | Some k \<Rightarrow> (Inr (take k (live_game_ids d)), tick d))
      | None \<Rightarrow> (Inr (live_game_ids d), tick d))"

text \<open>
  \<open>SELECT sport FROM games WHERE game_id=$1\<close>, scanned from one row: \<open>Scan\<close> fails
  when the statement fails and when no row has the id.
\<close>

definition getGameSport :: "'f world \<Rightarrow> db \<Rightarrow> string \<Rightarrow> (string + string) \<times> db" where
  "getGameSport w d gameID =
     (case db_fault w (stmts d) of
        Some err \<Rightarrow> (Inl err, tick d)
      | None \<Rightarrow>
          (case map_of (games d) gameID of
             None \<Rightarrow> (Inl ''no rows in result set'', tick d)
           | Some r \<Rightarrow> (Inr (g_sport r), tick d)))"

text \<open>
  The row that the \<open>INSERT ... ON CONFLICT (game_id) DO UPDATE\<close> of \<open>upsertGames\<close>
  leaves under the game's id, \<open>t\<close> being the server's \<open>now()\<close>.
\<close>

definition game_row_of :: "Game \<Rightarrow> int \<Rightarrow> game_row" where
  "game_row_of g t =
     \<lparr>g_sport = Game.Sport g, g_bookmaker = Game.Bookmaker g, g_source = Source g,
      g_league = League g, g_home_team = Home g, g_away_team = Away g,
      g_scores = Scores g, g_time_status = TimeStatus g, g_starts_at = StartsAt g,
      g_updated_at = t\<rparr>"

text \<open>
  The queued statements of a batch run in order, in one implicit transaction that began
  at \<open>t\<close>; the first that fails ends the batch with its error (the caller undoes the
  rows written so far).
\<close>

fun games_batch :: "'f world \<Rightarrow> int \<Rightarrow> db \<Rightarrow> Game list \<Rightarrow> string option \<times> db" where
  "games_batch w t d [] = (None, d)"
| "games_batch w t d (g # gs) =
     (case db_fault w (stmts d) of
        Some err \<Rightarrow> (Some err, tick d)
      | None \<Rightarrow>
          games_batch w t
            (tick (d\<lparr>games := AList.update (Game.GameID g) (game_row_of g t) (games d)\<rparr>)) gs)"

text \<open>\<open>starts_at < CURRENT_DATE\<close>: never true of a row without \<open>starts_at\<close>.\<close>

definition game_stale :: "int \<Rightarrow> game_row \<Rightarrow> bool" where
  "game_stale today r = (case g_starts_at r of None \<Rightarrow> False | Some s \<Rightarrow> s < today)"

definition upsertGames :: "'f world \<Rightarrow> db \<Rightarrow> Game list \<Rightarrow> string option \<times> db" where
  "upsertGames w d gs =
     (if length gs = 0 then (None, d)
      else (case db_fault w (stmts d) of
              Some err \<Rightarrow> (Some (''failed to delete old games: '' @ err), tick d)
            | None \<Rightarrow>
                (let d1 = tick (d\<lparr>games :=
                            filter (\<lambda>(k, r). \<not> game_stale (db_current_date w (stmts d)) r)
                              (games d)\<rparr>)
                 in case games_batch w (db_now w (stmts d1)) d1 gs of
                      (Some err, d2) \<Rightarrow> (Some err, d2\<lparr>games := games d1\<rparr>)
                    | (None, d2) \<Rightarrow> (None, d2))))"

definition odds_key :: "LiveOdd \<Rightarrow> string \<times> string \<times> string" where
  "odds_key od = (GameID od, MarketID od, SelectionID od)"

definition odds_row_of :: "LiveOdd \<Rightarrow> odds_row" where
  "odds_row_of od =
     \<lparr>o_sport = Sport od, o_bookmaker = Bookmaker od, o_market_name = MarketName od,
      o_selection_name = SelectionName od, o_line = Line od, o_price_dec = PriceDec od,
      o_price_frac = PriceFrac od, o_fetched_at = FetchedAt od, o_raw = Raw od\<rparr>"

fun odds_batch :: "'f world \<Rightarrow> db \<Rightarrow> LiveOdd list \<Rightarrow> string option \<times> db" where
  "odds_batch w d [] = (None, d)"
| "odds_batch w d (od # ods) =
     (case db_fault w (stmts d) of
        Some err \<Rightarrow> (Some err, tick d)
      | None \<Rightarrow>
          odds_batch w
            (tick (d\<lparr>liveodds := AList.update (odds_key od) (odds_row_of od) (liveodds d)\<rparr>))
            ods)"

text \<open>\<open>fetched_at < NOW() - INTERVAL '1 day'\<close>\<close>

definition odds_stale :: "int \<Rightarrow> odds_row \<Rightarrow> bool" where
  "odds_stale t r = (o_fetched_at r < t - 86400)"

definition insertLiveOdds :: "'f world \<Rightarrow> db \<Rightarrow> LiveOdd list \<Rightarrow> string option \<times> db" where
  "insertLiveOdds w d odds =
     (if length odds = 0 then (None, d)
      else (case db_fault w (stmts d) of
              Some err \<Rightarrow> (Some (''failed to delete old live odds: '' @ err), tick d)
            | None \<Rightarrow>
                (let d1 = tick (d\<lparr>liveodds :=
                            filter (\<lambda>(k, r). \<not> odds_stale (db_now w (stmts d)) r)
                              (liveodds d)\<rparr>)
                 in case odds_batch w d1 odds of
                      (Some err, d2) \<Rightarrow> (Some err, d2\<lparr>liveodds := liveodds d1\<rparr>)
                    | (None, d2) \<Rightarrow> (None, d2))))"

section \<open>The handlers of /sync-games and /update-liveodds\<close>

text \<open>
  What a handler answers: status 500 with the error's text, or status 200 with the
  count (\<open>count\<close> of /sync-games, \<open>inserted\<close> of /update-liveodds).
\<close>

datatype reply = Error500 string | GamesSynced nat | OddsUpdated nat

definition sync_games :: "'f world \<Rightarrow> db \<Rightarrow> reply \<times> db" where
  "sync_games w d =
     (case fetchAllGames w of
        Inl err \<Rightarrow> (Error500 err, d)
      | Inr all \<Rightarrow>
          (case upsertGames w d all of
             (Some err, d') \<Rightarrow> (Error500 err, d')
           | (None, d') \<Rightarrow> (GamesSynced (length all), d')))"

text \<open>The body of the loop of /update-liveodds, on the state \<open>(inserted, db)\<close>.\<close>

definition liveodds_body :: "'f world \<Rightarrow> nat \<times> db \<Rightarrow> string \<Rightarrow> nat \<times> db" where
  "liveodds_body w st gid =
     (case st of (inserted, d) \<Rightarrow>
        (case getGameSport w d gid of
           (r, d1) \<Rightarrow>
             (let sport = (case r of Inl err \<Rightarrow> '''' | Inr s \<Rightarrow> s)
              in case fetchLiveOdds w gid sport of
                   Inl err \<Rightarrow> (inserted, d1)
                 | Inr odds \<Rightarrow>
                     (case insertLiveOdds w d1 odds of
                        (Some err, d2) \<Rightarrow> (inserted, d2)
                      | (None, d2) \<Rightarrow> (inserted + length odds, d2)))))"

definition update_liveodds :: "'f world \<Rightarrow> db \<Rightarrow> reply \<times> db" where
  "update_liveodds w d =
     (case fetchLiveGameIDs w d of
        (Inl err, d0) \<Rightarrow> (Error500 err, d0)
      | (Inr gameIDs, d0) \<Rightarrow>
          (case foldl (liveodds_body w) (0, d0) gameIDs of
             (inserted, d') \<Rightarrow> (OddsUpdated inserted, d')))"

section \<open>An instance of the library for evaluating examples\<close>

text \<open>
  The theorems below hold for every library. Their examples are evaluated in this one:
  exact fractions \<open>(numerator, denominator)\<close> with a positive denominator in place of
  float64, \<open>ParseFloat\<close> on unsigned decimal integer literals only, and texts printed
  to at most three decimals. On the operands of the examples (small integers whose
  quotients are exact in binary) float64 computes and prints the same values.
\<close>

type_synonym frac = "int \<times> int"

definition frac_add :: "frac \<Rightarrow> frac \<Rightarrow> frac" where
  "frac_add x y = (fst x * snd y + fst y * snd x, snd x * snd y)"

definition frac_mul :: "frac \<Rightarrow> frac \<Rightarrow> frac" where
  "frac_mul x y = (fst x * fst y, snd x * snd y)"

definition frac_div :: "frac \<Rightarrow> frac \<Rightarrow> frac" where
  "frac_div x y =
     (if fst y < 0 then (- (fst x * snd y), snd x * (- fst y)) else (fst x * snd y, snd x * fst y))"

definition frac_round :: "frac \<Rightarrow> frac" where
  "frac_round x = (sgn (fst x) * ((2 * \<bar>fst x\<bar> + snd x) div (2 * snd x)), 1)"

definition digit_char :: "nat \<Rightarrow> char" where
  "digit_char d = ''0123456789'' ! d"

function show_nat :: "nat \<Rightarrow> string" where
  "show_nat n =
     (if n < 10 then [digit_char n] else show_nat (n div 10) @ [digit_char (n mod 10)])"
  by pat_completeness auto
termination
  by (relation "measure id") auto

fun strip_zeros :: "string \<Rightarrow> string" where
  "strip_zeros [] = []"
| "strip_zeros (c # cs) =
     (case strip_zeros cs of
        [] \<Rightarrow> (if c = CHR ''0'' then [] else [c])
      | r # rs \<Rightarrow> c # r # rs)"

definition frac_format :: "frac \<Rightarrow> string" where
  "frac_format x =
     (let n = nat ((\<bar>fst x\<bar> * 1000) div snd x);
          m = n mod 1000;
          ds = strip_zeros [digit_char (m div 100), digit_char (m div 10 mod 10),
                            digit_char (m mod 10)]
      in (if fst x < 0 then ''-'' else '''') @ show_nat (n div 1000) @
         (if ds = [] then [] else CHR ''.'' # ds))"

fun json_text :: "('f \<Rightarrow> string) \<Rightarrow> 'f jvalue \<Rightarrow> string" where
  "json_text num JNull = ''null''"
| "json_text num (JBool b) = (if b then ''true'' else ''false'')"
| "json_text num (JNumber x) = num x"
| "json_text num (JString s) = CHR 0x22 # s @ [CHR 0x22]"
| "json_text num (JArray vs) = ''['' @ join '','' (map (json_text num) vs) @ '']''"
| "json_text num (JObject kvs) =
     ''{'' @
     join '','' (map (\<lambda>kv. CHR 0x22 # fst kv @ [CHR 0x22] @ '':'' @ json_text num (snd kv)) kvs)
     @ ''}''"

definition fraclib :: "frac golib" where
  "fraclib =
     \<lparr>ParseFloat = (\<lambda>s. map_option (\<lambda>n. (int n, 1)) (ParseUint s)),
      FormatFloat = frac_format,
      fmt_float = frac_format,
      of_lit = (\<lambda>n. (int n, 1)),
      is_zero = (\<lambda>x. fst x = 0),
      fadd = frac_add, fmul = frac_mul, fdiv = frac_div, Round = frac_round,
      Marshal = (\<lambda>item. json_text frac_format (JObject item))\<rparr>"

section \<open>Binary64 arithmetic, for the examples of fracToDecimal\<close>
















section \<open>A world and a store for the examples\<close>

definition ex_mg1 :: "frac item" where
  "ex_mg1 =
     [(''ID'', JString ''M1''), (''NA'', JString ''Fulltime Result''), (''type'', JString ''MG'')]"

definition ex_pa1 :: "frac item" where
  "ex_pa1 =
     [(''ID'', JString ''S1''), (''NA'', JString ''Home''), (''OD'', JString ''5/2''),
      (''ODDS'', JString ''7/4''), (''type'', JString ''PA'')]"

definition ex_pa2 :: "frac item" where
  "ex_pa2 =
     [(''ID'', JString ''S2''), (''NA'', JString ''Draw''), (''ODD'', JString ''3/1''),
      (''type'', JString ''PA'')]"

definition ex_mg2 :: "frac item" where
  "ex_mg2 =
     [(''ID'', JString ''M2''), (''NA'', JString ''Next Goal''), (''type'', JString ''MG'')]"

definition ex_pa3 :: "frac item" where
  "ex_pa3 =
     [(''ID'', JString ''S3''), (''NA'', JString ''Away''), (''ODDS'', JString ''1/4''),
      (''type'', JString ''PA'')]"

definition ex_pa_bare :: "frac item" where
  "ex_pa_bare = [(''ID'', JString ''S4''), (''NA'', JString ''Over''), (''type'', JString ''PA'')]"

definition ex_ev :: "frac item" where
  "ex_ev = [(''ID'', JString ''E1''), (''OD'', JString ''9/1''), (''type'', JString ''EV'')]"

definition ex_resp :: "frac APIResponse" where
  "ex_resp = \<lparr>Success = 1, Results = [[ex_mg1, ex_pa1], [ex_pa2, ex_mg2, ex_pa3]]\<rparr>"

definition ex_resp_pa_first :: "frac APIResponse" where
  "ex_resp_pa_first = \<lparr>Success = 1, Results = [[ex_ev, ex_pa1], [ex_mg2, ex_pa3]]\<rparr>"

definition ex_pre_game :: pre_game where
  "ex_pre_game =
     \<lparr>pre_game_id = ''P1'', pre_time = ''1700003600'', pre_time_status = ''0'',
      pre_league = ''Premier League'', pre_home = ''Arsenal'', pre_away = ''Chelsea'',
      pre_scores = ''''\<rparr>"

definition ex_live_root :: "frac item" where
  "ex_live_root =
     [(''games'',
       JArray [JObject [(''away'', JString ''Roma''), (''game_id'', JString ''G1''),
                        (''home'', JString ''Lazio''), (''league'', JString ''Serie A''),
                        (''scores'', JString ''1-0''), (''time'', JString ''1699999000''),
                        (''time_status'', JString ''1'')],
               JString ''junk''])]"

text \<open>
  Upstream answers for pre-match soccer, live soccer and live tennis (a response without
  games), and for the odds of the games G1 and G2; every other request fails. No SQL
  statement fails. The current date begins at 1699920000.
\<close>

definition ex_world :: "frac world" where
  "ex_world =
     \<lparr>w_lib = fraclib,
      http_pre = (\<lambda>sport. if sport = ''soccer'' then Inr [ex_pre_game] else Inl ''timeout''),
      http_live = (\<lambda>sport. if sport = ''soccer'' then Inr ex_live_root
                            else if sport = ''tennis'' then Inr [] else Inl ''timeout''),
      http_liveodds = (\<lambda>gameID. if gameID = ''G1'' then Inr ex_resp
                                 else if gameID = ''G2'' then Inr ex_resp_pa_first
                                 else Inl ''timeout''),
      time_now = (\<lambda>gameID. 1700000000),
      db_fault = (\<lambda>n. None),
      db_rows_before_fault = (\<lambda>n. None),
      db_now = (\<lambda>n. 1700000000),
      db_current_date = (\<lambda>n. 1699920000)\<rparr>"

definition ex_row :: "string \<Rightarrow> string \<Rightarrow> string \<Rightarrow> int option \<Rightarrow> game_row" where
  "ex_row sport source status starts =
     \<lparr>g_sport = sport, g_bookmaker = ''bet365'', g_source = source, g_league = ''Serie A'',
      g_home_team = ''Lazio'', g_away_team = ''Roma'', g_scores = ''0-0'',
      g_time_status = status, g_starts_at = starts, g_updated_at = 1699990000\<rparr>"

text \<open>
  A store with a game that started before the current date (OLD), two live games in
  play (G3, then G1) and no odds.
\<close>

definition ex_db :: db where
  "ex_db =
     \<lparr>games = [(''OLD'', ex_row ''soccer'' ''pre'' ''3'' (Some 1699000000)),
               (''G3'', ex_row ''tennis'' ''live'' ''1'' None),
               (''G1'', ex_row ''soccer'' ''live'' ''1'' (Some 1699999000))],
      liveodds = [],
      stmts = 0\<rparr>"

text \<open>The same world, with the \<open>k\<close>-th SQL statement failing.\<close>

definition ex_world_fault :: "nat \<Rightarrow> frac world" where
  "ex_world_fault k = ex_world\<lparr>db_fault := (\<lambda>n. if n = k then Some ''deadlock'' else None)\<rparr>"

text \<open>
  The same world, with the first SQL statement failing while it executes, after one row
  was read.
\<close>

definition ex_world_query_fault :: "frac world" where
  "ex_world_query_fault =
     ex_world\<lparr>db_fault := (\<lambda>n. if n = 0 then Some ''deadlock'' else None),
               db_rows_before_fault := (\<lambda>n. Some 1)\<rparr>"

text \<open>The same world, answering every odds request with a \<open>PA\<close> record that has no odds key
  between a market and a priced selection.\<close>

definition ex_resp_bare :: "frac APIResponse" where
  "ex_resp_bare = \<lparr>Success = 1, Results = [[ex_mg1, ex_pa_bare, ex_pa1]]\<rparr>"

definition ex_world_bare :: "frac world" where
  "ex_world_bare = ex_world\<lparr>http_liveodds := (\<lambda>gameID. Inr ex_resp_bare)\<rparr>"

text \<open>The same world, with the upstream API down for every game list.\<close>

definition ex_world_down :: "frac world" where
  "ex_world_down =
     ex_world\<lparr>http_pre := (\<lambda>sport. Inl ''timeout''), http_live := (\<lambda>sport. Inl ''timeout'')\<rparr>"

text \<open>The games that this world's upstream lists, and the odds of its game G1.\<close>

definition ex_game_p1 :: Game where
  "ex_game_p1 =
     \<lparr>Game.GameID = ''P1'', Game.Sport = ''soccer'', Game.Bookmaker = ''bet365'',
      Source = ''pre'', League = ''Premier League'', Home = ''Arsenal'', Away = ''Chelsea'',
      Scores = '''', TimeStatus = ''0'', StartsAt = Some 1700003600\<rparr>"

definition ex_game_g1 :: Game where
  "ex_game_g1 =
     \<lparr>Game.GameID = ''G1'', Game.Sport = ''soccer'', Game.Bookmaker = ''bet365'',
      Source = ''live'', League = ''Serie A'', Home = ''Lazio'', Away = ''Roma'',
      Scores = ''1-0'', TimeStatus = ''1'', StartsAt = Some 1699999000\<rparr>"

definition ex_odd ::
  "string \<Rightarrow> string \<Rightarrow> string \<times> string \<Rightarrow> string \<times> string \<Rightarrow> string \<times> string \<Rightarrow> frac item
     \<Rightarrow> LiveOdd" where
  "ex_odd gameID sport market selection price item =
     \<lparr>GameID = gameID, Sport = sport, Bookmaker = ''bet365'',
      MarketID = fst market, MarketName = snd market,
      SelectionID = fst selection, SelectionName = snd selection, Line = ''<nil>'',
      PriceDec = fst price, PriceFrac = snd price, FetchedAt = 1700000000,
      Raw = Marshal fraclib item\<rparr>"

definition ex_odds_g1 :: "LiveOdd list" where
  "ex_odds_g1 =
     [ex_odd ''G1'' ''soccer'' (''M1'', ''Fulltime Result'') (''S1'', ''Home'') (''3.5'', ''5/2'') ex_pa1,
      ex_odd ''G1'' ''soccer'' (''M1'', ''Fulltime Result'') (''S2'', ''Draw'') (''4'', ''3/1'') ex_pa2,
      ex_odd ''G1'' ''soccer'' (''M2'', ''Next Goal'') (''S3'', ''Away'') (''1.25'', ''1/4'') ex_pa3]"

definition ex_odds_rows :: "((string \<times> string \<times> string) \<times> odds_row) list" where
  "ex_odds_rows = map (\<lambda>od. (odds_key od, odds_row_of od)) ex_odds_g1"

section \<open>The market context, as the specification words it\<close>

text \<open>
  The market of a record is that of the most recent \<open>MG\<close> record before it: its
  \<open>ID\<close> and \<open>NA\<close>, and two empty texts when no \<open>MG\<close> record precedes.
\<close>

definition market_context :: "'f golib \<Rightarrow> 'f item list \<Rightarrow> string \<times> string" where
  "market_context lib before =
     (let ms = filter (\<lambda>x. field lib x ''type'' = ''MG'') before
      in if ms = [] then ('''', '''')
         else (field lib (last ms) ''ID'', field lib (last ms) ''NA''))"

text \<open>
  What a record emits under a market context: one LiveOdd for a \<open>PA\<close> record that has
  an odds key, nothing for any other record.
\<close>

definition emitted ::
  "'f golib \<Rightarrow> string \<Rightarrow> string \<Rightarrow> int \<Rightarrow> string \<times> string \<Rightarrow> 'f item \<Rightarrow> LiveOdd list" where
  "emitted lib gameID sport now ctx item =
     (if field lib item ''type'' = ''PA'' \<and> snd (getOddsField lib item)
      then [\<lparr>GameID = gameID, Sport = sport, Bookmaker = ''bet365'',
             MarketID = fst ctx, MarketName = snd ctx,
             SelectionID = field lib item ''ID'', SelectionName = field lib item ''NA'',
             Line = field lib item ''HA'',
             PriceDec = fst (fracToDecimal lib (fst (getOddsField lib item))),
             PriceFrac = fst (snd (fracToDecimal lib (fst (getOddsField lib item)))),
             FetchedAt = now, Raw = Marshal lib item\<rparr>]
      else [])"

text \<open>
  The odds of a stream of records: what each record emits under the market context of
  the records before it, in the order of the stream.
\<close>

definition liveodds_of_stream ::
  "'f golib \<Rightarrow> string \<Rightarrow> string \<Rightarrow> int \<Rightarrow> 'f item list \<Rightarrow> LiveOdd list" where
  "liveodds_of_stream lib gameID sport now xs =
     concat (map (\<lambda>i. emitted lib gameID sport now (market_context lib (take i xs)) (xs ! i))
               [0..<length xs])"

section \<open>The odds rows of a live-odds sync, as the specification words it\<close>

text \<open>
  What one game contributes to a live-odds sync that reaches it with the store \<open>d\<close>:
  the number of its odds rows when both its fetch and its insert succeed, and no row when
  either fails; with the store that the game leaves behind.
\<close>

definition game_rows :: "'f world \<Rightarrow> db \<Rightarrow> string \<Rightarrow> nat \<times> db" where
  "game_rows w d gid =
     (let d1 = snd (getGameSport w d gid);
          sport = (case fst (getGameSport w d gid) of Inl err \<Rightarrow> '''' | Inr s \<Rightarrow> s)
      in case fetchLiveOdds w gid sport of
           Inl err \<Rightarrow> (0, d1)
         | Inr odds \<Rightarrow>
             (case insertLiveOdds w d1 odds of
                (None, d2) \<Rightarrow> (length odds, d2)
              | (Some err, d2) \<Rightarrow> (0, d2)))"

text \<open>The total over the games in order, each reached with the store of the one before.\<close>

fun total_rows :: "'f world \<Rightarrow> db \<Rightarrow> string list \<Rightarrow> nat \<times> db" where
  "total_rows w d [] = (0, d)"
| "total_rows w d (gid # ids) =
     (case game_rows w d gid of
        (k, d') \<Rightarrow> (case total_rows w d' ids of (m, d'') \<Rightarrow> (k + m, d'')))"

lemmas frac_eval =
  TrimSpace_def IsSpace_def space_runes_def fraclib_def ParseUint_def digit_val_def
  frac_add_def frac_mul_def frac_div_def frac_round_def frac_format_def digit_char_def Let_def


section \<open>fracToDecimal: when it fails, and its second value\<close>

text \<open>
  C4, as the code has it. \<open>fracToDecimal\<close> first trims the white space around its
  input, and everything after works on the trimmed text. Its second value is the trimmed
  text, on success and on failure; and \<open>ok\<close> is false exactly when splitting the
  trimmed text on \<open>/\<close> gives a number of parts other than 2, or a part does not
  parse as a number, or the denominator is zero.
\<close>

theorem fracToDecimal_fails_iff:
  "fst (snd (fracToDecimal lib odds)) = TrimSpace odds \<and>
   (snd (snd (fracToDecimal lib odds)) = False \<longleftrightarrow>
      (length (Split (TrimSpace odds) (CHR ''/'')) \<noteq> 2 \<or>
       ParseFloat lib (Split (TrimSpace odds) (CHR ''/'') ! 0) = None \<or>
       ParseFloat lib (Split (TrimSpace odds) (CHR ''/'') ! 1) = None \<or>
       (\<exists>b. ParseFloat lib (Split (TrimSpace odds) (CHR ''/'') ! 1) = Some b \<and>
            is_zero lib b)))"
  by (auto simp: fracToDecimal_def Let_def split: option.splits)

theorem fracToDecimal_fails_iff_witness:
  "snd (snd (fracToDecimal fraclib '' 5/0 '')) = False \<and>
   fst (snd (fracToDecimal fraclib '' 5/0 '')) = ''5/0'' \<and>
   length (Split (TrimSpace '' 5/0 '') (CHR ''/'')) = 2 \<and>
   ParseFloat fraclib (Split (TrimSpace '' 5/0 '') (CHR ''/'') ! 0) = Some (5, 1) \<and>
   ParseFloat fraclib (Split (TrimSpace '' 5/0 '') (CHR ''/'') ! 1) = Some (0, 1) \<and>
   is_zero fraclib (0, 1)"
  using fracToDecimal_fails_iff [of fraclib "'' 5/0 ''"]
  by (simp add: frac_eval)

text \<open>
  The claim as the specification states it (the second value is the original input,
  unchanged) fails on an input with a leading blank: the input \<open>" 5/2"\<close> gives
  \<open>("3.5", "5/2", true)\<close>. The first part of the untrimmed input, \<open>" 5"\<close>, does
  not parse, and the conversion succeeds all the same.
\<close>

theorem fracToDecimal_original_text_counterexample:
  "fracToDecimal fraclib '' 5/2'' = (''3.5'', ''5/2'', True) \<and>
   fst (snd (fracToDecimal fraclib '' 5/2'')) \<noteq> '' 5/2'' \<and>
   ParseFloat fraclib (Split '' 5/2'' (CHR ''/'') ! 0) = None"
  by (simp add: fracToDecimal_def frac_eval)

section \<open>fracToDecimal: the success case\<close>









section \<open>The loops of fetchLiveOdds as a stream\<close>

lemma market_context_snoc:
  "market_context lib (xs @ [x]) =
     (if field lib x ''type'' = ''MG'' then (field lib x ''ID'', field lib x ''NA'')
      else market_context lib xs)"
  by (simp add: market_context_def Let_def)

lemma liveodds_of_stream_snoc:
  "liveodds_of_stream lib g s n (xs @ [x]) =
     liveodds_of_stream lib g s n xs @ emitted lib g s n (market_context lib xs) x"
proof -
  have before:
    "map (\<lambda>i. emitted lib g s n (market_context lib (take i (xs @ [x]))) ((xs @ [x]) ! i))
       [0..<length xs] =
     map (\<lambda>i. emitted lib g s n (market_context lib (take i xs)) (xs ! i)) [0..<length xs]"
    by (rule map_cong) (simp_all add: nth_append)
  have last: "take (length xs) (xs @ [x]) = xs"
    by simp
  show ?thesis
    by (simp add: liveodds_of_stream_def before last del: take_append)
qed

lemma odds_item_emitted:
  "odds_item lib g s n (odds, ctx) x =
     (odds @ emitted lib g s n ctx x,
      if field lib x ''type'' = ''MG'' then (field lib x ''ID'', field lib x ''NA'') else ctx)"
  by (cases ctx) (auto simp: odds_item_def emitted_def Let_def split: prod.splits)

lemma foldl_odds_item:
  "foldl (odds_item lib g s n) ([], '''', '''') xs =
     (liveodds_of_stream lib g s n xs, market_context lib xs)"
proof (induction xs rule: rev_induct)
  case Nil
  show ?case by (simp add: liveodds_of_stream_def market_context_def)
next
  case (snoc x xs)
  then show ?case
    by (simp add: odds_item_emitted liveodds_of_stream_snoc market_context_snoc)
qed

lemma foldl_odds_group:
  "foldl (odds_group lib g s n) st groups = foldl (odds_item lib g s n) st (concat groups)"
  by (induction groups arbitrary: st) (simp_all add: odds_group_def)

lemma fetchLiveOdds_stream:
  "http_liveodds w gid = Inr resp \<Longrightarrow>
   fetchLiveOdds w gid sport =
     Inr (liveodds_of_stream (w_lib w) gid sport (time_now w gid) (concat (Results resp)))"
  by (simp add: fetchLiveOdds_def foldl_odds_group foldl_odds_item)

lemma odds_item_extends:
  "\<exists>more. fst (foldl (odds_item lib g s n) (odds, ctx) xs) = odds @ more"
proof (induction xs arbitrary: odds ctx)
  case Nil
  show ?case by simp
next
  case (Cons x xs)
  obtain ctx' where step:
    "odds_item lib g s n (odds, ctx) x = (odds @ emitted lib g s n ctx x, ctx')"
    by (simp add: odds_item_emitted)
  from Cons [of "odds @ emitted lib g s n ctx x" ctx'] obtain more where
    "fst (foldl (odds_item lib g s n) (odds @ emitted lib g s n ctx x, ctx') xs) =
       (odds @ emitted lib g s n ctx x) @ more"
    by blast
  then show ?case
    by (simp add: step)
qed

lemmas ex_items =
  ex_mg1_def ex_pa1_def ex_pa2_def ex_mg2_def ex_pa3_def ex_pa_bare_def ex_ev_def ex_resp_def
  ex_resp_pa_first_def ex_resp_bare_def

section \<open>Market-context propagation\<close>

text \<open>
  C1. When the liveodds response of a game decodes, \<open>fetchLiveOdds\<close> returns the odds
  of the stream of its records (the groups in order, the records of each group in
  order): each \<open>PA\<close> record with an odds key emits one LiveOdd, which carries the
  \<open>ID\<close> and \<open>NA\<close> of the most recent \<open>MG\<close> record before it. In particular, for
  the stream \<open>[MG, PA, PA, MG, PA]\<close> where each \<open>PA\<close> has an odds key, exactly three
  LiveOdds are emitted, the first two under the first market and the third under the
  second.
\<close>

theorem market_context_propagation:
  assumes "http_liveodds w gid = Inr resp"
  shows "fetchLiveOdds w gid sport =
           Inr (liveodds_of_stream (w_lib w) gid sport (time_now w gid) (concat (Results resp))) \<and>
         (concat (Results resp) = [mg1, pa1, pa2, mg2, pa3] \<and>
          field (w_lib w) mg1 ''type'' = ''MG'' \<and> field (w_lib w) mg2 ''type'' = ''MG'' \<and>
          (\<forall>pa \<in> {pa1, pa2, pa3}.
             field (w_lib w) pa ''type'' = ''PA'' \<and> snd (getOddsField (w_lib w) pa)) \<longrightarrow>
          (\<exists>odds. fetchLiveOdds w gid sport = Inr odds \<and>
             map (\<lambda>od. (SelectionID od, MarketID od, MarketName od)) odds =
               [(field (w_lib w) pa1 ''ID'', field (w_lib w) mg1 ''ID'', field (w_lib w) mg1 ''NA''),
                (field (w_lib w) pa2 ''ID'', field (w_lib w) mg1 ''ID'', field (w_lib w) mg1 ''NA''),
                (field (w_lib w) pa3 ''ID'', field (w_lib w) mg2 ''ID'', field (w_lib w) mg2 ''NA'')]))"
proof (intro conjI impI)
  show "fetchLiveOdds w gid sport =
          Inr (liveodds_of_stream (w_lib w) gid sport (time_now w gid) (concat (Results resp)))"
    using assms by (rule fetchLiveOdds_stream)
next
  assume ex: "concat (Results resp) = [mg1, pa1, pa2, mg2, pa3] \<and>
          field (w_lib w) mg1 ''type'' = ''MG'' \<and> field (w_lib w) mg2 ''type'' = ''MG'' \<and>
          (\<forall>pa \<in> {pa1, pa2, pa3}.
             field (w_lib w) pa ''type'' = ''PA'' \<and> snd (getOddsField (w_lib w) pa))"
  have "fetchLiveOdds w gid sport =
          Inr (fst (foldl (odds_item (w_lib w) gid sport (time_now w gid)) ([], '''', '''')
                      [mg1, pa1, pa2, mg2, pa3]))"
    using assms ex by (simp add: fetchLiveOdds_def foldl_odds_group)
  with ex show "\<exists>odds. fetchLiveOdds w gid sport = Inr odds \<and>
             map (\<lambda>od. (SelectionID od, MarketID od, MarketName od)) odds =
               [(field (w_lib w) pa1 ''ID'', field (w_lib w) mg1 ''ID'', field (w_lib w) mg1 ''NA''),
                (field (w_lib w) pa2 ''ID'', field (w_lib w) mg1 ''ID'', field (w_lib w) mg1 ''NA''),
                (field (w_lib w) pa3 ''ID'', field (w_lib w) mg2 ''ID'', field (w_lib w) mg2 ''NA'')]"
    by (simp add: odds_item_emitted emitted_def)
qed

lemmas odds_eval =
  fetchLiveOdds_def odds_group_def odds_item_def field_def getOddsField_def fracToDecimal_def

theorem market_context_propagation_witness:
  "http_liveodds ex_world ''G1'' = Inr ex_resp \<and>
   concat (Results ex_resp) = [ex_mg1, ex_pa1, ex_pa2, ex_mg2, ex_pa3] \<and>
   field fraclib ex_mg1 ''type'' = ''MG'' \<and> field fraclib ex_mg2 ''type'' = ''MG'' \<and>
   field fraclib ex_pa1 ''type'' = ''PA'' \<and> field fraclib ex_pa2 ''type'' = ''PA'' \<and>
   field fraclib ex_pa3 ''type'' = ''PA'' \<and>
   getOddsField fraclib ex_pa1 = (''5/2'', True) \<and>
   getOddsField fraclib ex_pa2 = (''3/1'', True) \<and>
   getOddsField fraclib ex_pa3 = (''1/4'', True) \<and>
   (\<exists>odds. fetchLiveOdds ex_world ''G1'' ''soccer'' = Inr odds \<and>
      map (\<lambda>od. (SelectionID od, MarketID od, MarketName od)) odds =
        [(''S1'', ''M1'', ''Fulltime Result''), (''S2'', ''M1'', ''Fulltime Result''),
         (''S3'', ''M2'', ''Next Goal'')] \<and>
      map PriceDec odds = [''3.5'', ''4'', ''1.25''])"
proof -
  have h: "http_liveodds ex_world ''G1'' = Inr ex_resp"
    by (simp add: ex_world_def)
  have c: "concat (Results ex_resp) = [ex_mg1, ex_pa1, ex_pa2, ex_mg2, ex_pa3]"
    by (simp add: ex_resp_def)
  have t: "field (w_lib ex_world) ex_mg1 ''type'' = ''MG'' \<and>
           field (w_lib ex_world) ex_mg2 ''type'' = ''MG'' \<and>
           (\<forall>pa \<in> {ex_pa1, ex_pa2, ex_pa3}.
              field (w_lib ex_world) pa ''type'' = ''PA'' \<and> snd (getOddsField (w_lib ex_world) pa))"
    by (simp add: field_def getOddsField_def ex_items)
  have p: "\<exists>odds. fetchLiveOdds ex_world ''G1'' ''soccer'' = Inr odds \<and>
      map PriceDec odds = [''3.5'', ''4'', ''1.25'']"
    by (simp add: odds_eval ex_world_def ex_items frac_eval)
  have f: "field (w_lib ex_world) ex_pa1 ''ID'' = ''S1''"
          "field (w_lib ex_world) ex_pa2 ''ID'' = ''S2''"
          "field (w_lib ex_world) ex_pa3 ''ID'' = ''S3''"
          "field (w_lib ex_world) ex_mg1 ''ID'' = ''M1''"
          "field (w_lib ex_world) ex_mg1 ''NA'' = ''Fulltime Result''"
          "field (w_lib ex_world) ex_mg2 ''ID'' = ''M2''"
          "field (w_lib ex_world) ex_mg2 ''NA'' = ''Next Goal''"
    by (simp_all add: field_def ex_items)
  from market_context_propagation [OF h, of "''soccer''" ex_mg1 ex_pa1 ex_pa2 ex_mg2 ex_pa3] c t
  have "\<exists>odds. fetchLiveOdds ex_world ''G1'' ''soccer'' = Inr odds \<and>
      map (\<lambda>od. (SelectionID od, MarketID od, MarketName od)) odds =
        [(''S1'', ''M1'', ''Fulltime Result''), (''S2'', ''M1'', ''Fulltime Result''),
         (''S3'', ''M2'', ''Next Goal'')]"
    unfolding f by blast
  with p have "\<exists>odds. fetchLiveOdds ex_world ''G1'' ''soccer'' = Inr odds \<and>
      map (\<lambda>od. (SelectionID od, MarketID od, MarketName od)) odds =
        [(''S1'', ''M1'', ''Fulltime Result''), (''S2'', ''M1'', ''Fulltime Result''),
         (''S3'', ''M2'', ''Next Goal'')] \<and>
      map PriceDec odds = [''3.5'', ''4'', ''1.25'']"
    by auto
  moreover have "field fraclib ex_mg1 ''type'' = ''MG'' \<and> field fraclib ex_mg2 ''type'' = ''MG'' \<and>
   field fraclib ex_pa1 ''type'' = ''PA'' \<and> field fraclib ex_pa2 ''type'' = ''PA'' \<and>
   field fraclib ex_pa3 ''type'' = ''PA'' \<and>
   getOddsField fraclib ex_pa1 = (''5/2'', True) \<and>
   getOddsField fraclib ex_pa2 = (''3/1'', True) \<and>
   getOddsField fraclib ex_pa3 = (''1/4'', True)"
    by (simp add: field_def getOddsField_def ex_items)
  ultimately show ?thesis
    using h c by blast
qed

section \<open>Odds-field priority and skipped records\<close>

lemma odds_item_skipped:
  assumes "field lib item ''type'' \<noteq> ''MG''"
    and "field lib item ''type'' = ''PA'' \<longrightarrow> \<not> snd (getOddsField lib item)"
  shows "fst (foldl (odds_item lib g s n) ([], '''', '''') (before @ item # rest)) =
           liveodds_of_stream lib g s n (before @ rest)"
proof -
  have "odds_item lib g s n (liveodds_of_stream lib g s n before, market_context lib before) item =
          (liveodds_of_stream lib g s n before, market_context lib before)"
    using assms by (simp add: odds_item_emitted emitted_def)
  then have "foldl (odds_item lib g s n) ([], '''', '''') (before @ item # rest) =
          foldl (odds_item lib g s n) ([], '''', '''') (before @ rest)"
    by (simp add: foldl_odds_item)
  then show ?thesis
    by (simp only: foldl_odds_item fst_conv)
qed

lemma odds_item_priced:
  assumes "field lib item ''type'' = ''PA''" and "snd (getOddsField lib item)"
  shows "\<exists>od more.
           fst (foldl (odds_item lib g s n) ([], '''', '''') (before @ item # rest)) =
             liveodds_of_stream lib g s n before @ od # more \<and>
           SelectionID od = field lib item ''ID'' \<and>
           PriceDec od = fst (fracToDecimal lib (fst (getOddsField lib item))) \<and>
           PriceFrac od = fst (snd (fracToDecimal lib (fst (getOddsField lib item))))"
proof -
  let ?f = "odds_item lib g s n"
  let ?pre = "liveodds_of_stream lib g s n before"
  obtain od where od: "emitted lib g s n (market_context lib before) item = [od]"
    and props: "SelectionID od = field lib item ''ID''"
      "PriceDec od = fst (fracToDecimal lib (fst (getOddsField lib item)))"
      "PriceFrac od = fst (snd (fracToDecimal lib (fst (getOddsField lib item))))"
    using assms by (simp add: emitted_def)
  have "foldl ?f ([], '''', '''') (before @ item # rest) =
          foldl ?f (?pre @ [od], market_context lib before) rest"
    using assms(1) by (simp add: foldl_odds_item odds_item_emitted od)
  moreover obtain more where
    "fst (foldl ?f (?pre @ [od], market_context lib before) rest) = (?pre @ [od]) @ more"
    using odds_item_extends by blast
  ultimately have "fst (foldl ?f ([], '''', '''') (before @ item # rest)) = ?pre @ od # more"
    by simp
  with props show ?thesis by blast
qed

lemma getOddsField_priority:
  "getOddsField lib item =
     (case map_of item ''OD'' of
        Some v \<Rightarrow> (Sprintv lib v, True)
      | None \<Rightarrow>
          (case map_of item ''ODD'' of
             Some v \<Rightarrow> (Sprintv lib v, True)
           | None \<Rightarrow>
               (case map_of item ''ODDS'' of
                  Some v \<Rightarrow> (Sprintv lib v, True)
                | None \<Rightarrow> ('''', False))))"
  by (simp add: getOddsField_def split: option.splits)

text \<open>
  C2. \<open>getOddsField\<close> takes the value of the first key present among \<open>OD\<close>,
  \<open>ODD\<close>, \<open>ODDS\<close>, in that order. When the response decodes, \<open>fetchLiveOdds\<close>
  emits for a \<open>PA\<close> record with an odds key one LiveOdd, right after the odds of the
  records before it, whose prices are converted from that value: from the value of
  \<open>OD\<close> whenever the record has \<open>OD\<close>, whatever it has under \<open>ODDS\<close>. A \<open>PA\<close>
  record with none of the three keys, and a record that is neither \<open>MG\<close> nor \<open>PA\<close>,
  change nothing: the odds returned are those of the stream without the record. And
  \<open>fetchLiveOdds\<close> then returns odds, never an error.
\<close>

theorem odds_field_priority:
  "getOddsField (w_lib w) item =
     (case map_of item ''OD'' of
        Some v \<Rightarrow> (Sprintv (w_lib w) v, True)
      | None \<Rightarrow>
          (case map_of item ''ODD'' of
             Some v \<Rightarrow> (Sprintv (w_lib w) v, True)
           | None \<Rightarrow>
               (case map_of item ''ODDS'' of
                  Some v \<Rightarrow> (Sprintv (w_lib w) v, True)
                | None \<Rightarrow> ('''', False)))) \<and>
   (http_liveodds w gid = Inr resp \<and> concat (Results resp) = before @ item # rest \<and>
    field (w_lib w) item ''type'' = ''PA'' \<and> snd (getOddsField (w_lib w) item) \<longrightarrow>
      (\<exists>od more.
         fetchLiveOdds w gid sport =
           Inr (liveodds_of_stream (w_lib w) gid sport (time_now w gid) before @ od # more) \<and>
         SelectionID od = field (w_lib w) item ''ID'' \<and>
         PriceDec od = fst (fracToDecimal (w_lib w) (fst (getOddsField (w_lib w) item))) \<and>
         PriceFrac od =
           fst (snd (fracToDecimal (w_lib w) (fst (getOddsField (w_lib w) item)))))) \<and>
   (http_liveodds w gid = Inr resp \<and> concat (Results resp) = before @ item # rest \<and>
    field (w_lib w) item ''type'' = ''PA'' \<and> map_of item ''OD'' = Some v \<longrightarrow>
      (\<exists>od more.
         fetchLiveOdds w gid sport =
           Inr (liveodds_of_stream (w_lib w) gid sport (time_now w gid) before @ od # more) \<and>
         SelectionID od = field (w_lib w) item ''ID'' \<and>
         PriceDec od = fst (fracToDecimal (w_lib w) (Sprintv (w_lib w) v)) \<and>
         PriceFrac od = fst (snd (fracToDecimal (w_lib w) (Sprintv (w_lib w) v))))) \<and>
   (http_liveodds w gid = Inr resp \<and> concat (Results resp) = before @ item # rest \<and>
    field (w_lib w) item ''type'' = ''PA'' \<and> \<not> snd (getOddsField (w_lib w) item) \<longrightarrow>
      fetchLiveOdds w gid sport =
        Inr (liveodds_of_stream (w_lib w) gid sport (time_now w gid) (before @ rest))) \<and>
   (http_liveodds w gid = Inr resp \<and> concat (Results resp) = before @ item # rest \<and>
    field (w_lib w) item ''type'' \<noteq> ''MG'' \<and> field (w_lib w) item ''type'' \<noteq> ''PA'' \<longrightarrow>
      fetchLiveOdds w gid sport =
        Inr (liveodds_of_stream (w_lib w) gid sport (time_now w gid) (before @ rest))) \<and>
   (http_liveodds w gid = Inr resp \<longrightarrow> (\<exists>out. fetchLiveOdds w gid sport = Inr out))"
proof -
  let ?lib = "w_lib w"
  let ?now = "time_now w gid"
  have fetch: "fetchLiveOdds w gid sport =
      Inr (fst (foldl (odds_item ?lib gid sport ?now) ([], '''', '''') (before @ item # rest)))"
    if "http_liveodds w gid = Inr resp" and "concat (Results resp) = before @ item # rest"
    using that by (simp add: fetchLiveOdds_def foldl_odds_group)
  have priced: "\<exists>od more.
         fetchLiveOdds w gid sport =
           Inr (liveodds_of_stream ?lib gid sport ?now before @ od # more) \<and>
         SelectionID od = field ?lib item ''ID'' \<and>
         PriceDec od = fst (fracToDecimal ?lib (fst (getOddsField ?lib item))) \<and>
         PriceFrac od = fst (snd (fracToDecimal ?lib (fst (getOddsField ?lib item))))"
    if "http_liveodds w gid = Inr resp" and "concat (Results resp) = before @ item # rest"
      and "field ?lib item ''type'' = ''PA''" and "snd (getOddsField ?lib item)"
    using odds_item_priced [OF that(3,4), of gid sport ?now before rest] fetch [OF that(1,2)]
    by simp
  have od_key: "getOddsField ?lib item = (Sprintv ?lib v, True)" if "map_of item ''OD'' = Some v"
    using that by (simp add: getOddsField_priority)
  have skipped: "fetchLiveOdds w gid sport =
        Inr (liveodds_of_stream ?lib gid sport ?now (before @ rest))"
    if "http_liveodds w gid = Inr resp" and "concat (Results resp) = before @ item # rest"
      and "field ?lib item ''type'' \<noteq> ''MG''"
      and "field ?lib item ''type'' = ''PA'' \<longrightarrow> \<not> snd (getOddsField ?lib item)"
    using odds_item_skipped [OF that(3,4), of gid sport ?now before rest] fetch [OF that(1,2)]
    by simp
  show ?thesis
  proof (intro conjI impI)
    show "getOddsField ?lib item =
       (case map_of item ''OD'' of
          Some v \<Rightarrow> (Sprintv ?lib v, True)
        | None \<Rightarrow>
            (case map_of item ''ODD'' of
               Some v \<Rightarrow> (Sprintv ?lib v, True)
             | None \<Rightarrow>
                 (case map_of item ''ODDS'' of
                    Some v \<Rightarrow> (Sprintv ?lib v, True)
                  | None \<Rightarrow> ('''', False))))"
      by (rule getOddsField_priority)
  next
    assume "http_liveodds w gid = Inr resp \<and> concat (Results resp) = before @ item # rest \<and>
      field ?lib item ''type'' = ''PA'' \<and> snd (getOddsField ?lib item)"
    then show "\<exists>od more.
         fetchLiveOdds w gid sport =
           Inr (liveodds_of_stream ?lib gid sport ?now before @ od # more) \<and>
         SelectionID od = field ?lib item ''ID'' \<and>
         PriceDec od = fst (fracToDecimal ?lib (fst (getOddsField ?lib item))) \<and>
         PriceFrac od = fst (snd (fracToDecimal ?lib (fst (getOddsField ?lib item))))"
      using priced by blast
  next
    assume a: "http_liveodds w gid = Inr resp \<and> concat (Results resp) = before @ item # rest \<and>
      field ?lib item ''type'' = ''PA'' \<and> map_of item ''OD'' = Some v"
    then have "getOddsField ?lib item = (Sprintv ?lib v, True)"
      using od_key by blast
    with a priced show "\<exists>od more.
         fetchLiveOdds w gid sport =
           Inr (liveodds_of_stream ?lib gid sport ?now before @ od # more) \<and>
         SelectionID od = field ?lib item ''ID'' \<and>
         PriceDec od = fst (fracToDecimal ?lib (Sprintv ?lib v)) \<and>
         PriceFrac od = fst (snd (fracToDecimal ?lib (Sprintv ?lib v)))"
      by simp
  next
    assume "http_liveodds w gid = Inr resp \<and> concat (Results resp) = before @ item # rest \<and>
      field ?lib item ''type'' = ''PA'' \<and> \<not> snd (getOddsField ?lib item)"
    then show "fetchLiveOdds w gid sport =
        Inr (liveodds_of_stream ?lib gid sport ?now (before @ rest))"
      using skipped by simp
  next
    assume "http_liveodds w gid = Inr resp \<and> concat (Results resp) = before @ item # rest \<and>
      field ?lib item ''type'' \<noteq> ''MG'' \<and> field ?lib item ''type'' \<noteq> ''PA''"
    then show "fetchLiveOdds w gid sport =
        Inr (liveodds_of_stream ?lib gid sport ?now (before @ rest))"
      using skipped by simp
  next
    assume "http_liveodds w gid = Inr resp"
    then show "\<exists>out. fetchLiveOdds w gid sport = Inr out"
      by (simp add: fetchLiveOdds_def)
  qed
qed

lemma ex_streams:
  "liveodds_of_stream fraclib ''G1'' ''soccer'' 1700000000 [ex_mg1] = []"
  "liveodds_of_stream fraclib ''G1'' ''soccer'' 1700000000 [ex_mg1, ex_pa1] =
     [ex_odd ''G1'' ''soccer'' (''M1'', ''Fulltime Result'') (''S1'', ''Home'') (''3.5'', ''5/2'')
        ex_pa1]"
  "liveodds_of_stream fraclib ''G2'' '''' 1700000000 [ex_pa1, ex_mg2, ex_pa3] =
     [ex_odd ''G2'' '''' ('''', '''') (''S1'', ''Home'') (''3.5'', ''5/2'') ex_pa1,
      ex_odd ''G2'' '''' (''M2'', ''Next Goal'') (''S3'', ''Away'') (''1.25'', ''1/4'') ex_pa3]"
proof -
  have s: "liveodds_of_stream fraclib g s n xs =
             fst (foldl (odds_item fraclib g s n) ([], '''', '''') xs)" for g s n xs
    by (simp add: foldl_odds_item)
  show "liveodds_of_stream fraclib ''G1'' ''soccer'' 1700000000 [ex_mg1] = []"
    unfolding s by (simp add: odds_item_def field_def ex_items)
  show "liveodds_of_stream fraclib ''G1'' ''soccer'' 1700000000 [ex_mg1, ex_pa1] =
     [ex_odd ''G1'' ''soccer'' (''M1'', ''Fulltime Result'') (''S1'', ''Home'') (''3.5'', ''5/2'')
        ex_pa1]"
    unfolding s
    by (simp add: odds_item_def field_def getOddsField_def fracToDecimal_def frac_eval ex_items
          ex_odd_def)
  show "liveodds_of_stream fraclib ''G2'' '''' 1700000000 [ex_pa1, ex_mg2, ex_pa3] =
     [ex_odd ''G2'' '''' ('''', '''') (''S1'', ''Home'') (''3.5'', ''5/2'') ex_pa1,
      ex_odd ''G2'' '''' (''M2'', ''Next Goal'') (''S3'', ''Away'') (''1.25'', ''1/4'') ex_pa3]"
    unfolding s
    by (simp add: odds_item_def field_def getOddsField_def fracToDecimal_def frac_eval ex_items
          ex_odd_def)
qed

lemma ex_bare_fields:
  "w_lib ex_world_bare = fraclib"
  "time_now ex_world_bare gid = 1700000000"
  "http_liveodds ex_world_bare gid = Inr ex_resp_bare"
  by (simp_all add: ex_world_bare_def ex_world_def)

theorem odds_field_priority_witness:
  "http_liveodds ex_world ''G1'' = Inr ex_resp \<and>
   concat (Results ex_resp) = [ex_mg1] @ ex_pa1 # [ex_pa2, ex_mg2, ex_pa3] \<and>
   field fraclib ex_pa1 ''type'' = ''PA'' \<and>
   map_of ex_pa1 ''OD'' = Some (JString ''5/2'') \<and>
   map_of ex_pa1 ''ODDS'' = Some (JString ''7/4'') \<and>
   getOddsField fraclib ex_pa1 = (''5/2'', True) \<and>
   (\<exists>od more. fetchLiveOdds ex_world ''G1'' ''soccer'' = Inr (od # more) \<and>
      SelectionID od = ''S1'' \<and> PriceDec od = ''3.5'' \<and> PriceFrac od = ''5/2'') \<and>
   http_liveodds ex_world_bare ''G1'' = Inr ex_resp_bare \<and>
   concat (Results ex_resp_bare) = [ex_mg1] @ ex_pa_bare # [ex_pa1] \<and>
   field fraclib ex_pa_bare ''type'' = ''PA'' \<and>
   getOddsField fraclib ex_pa_bare = ('''', False) \<and>
   fetchLiveOdds ex_world_bare ''G1'' ''soccer'' =
     Inr [ex_odd ''G1'' ''soccer'' (''M1'', ''Fulltime Result'') (''S1'', ''Home'')
            (''3.5'', ''5/2'') ex_pa1] \<and>
   http_liveodds ex_world ''G2'' = Inr ex_resp_pa_first \<and>
   concat (Results ex_resp_pa_first) = [] @ ex_ev # [ex_pa1, ex_mg2, ex_pa3] \<and>
   field fraclib ex_ev ''type'' = ''EV'' \<and>
   map_of ex_ev ''OD'' = Some (JString ''9/1'') \<and>
   fetchLiveOdds ex_world ''G2'' '''' =
     Inr [ex_odd ''G2'' '''' ('''', '''') (''S1'', ''Home'') (''3.5'', ''5/2'') ex_pa1,
          ex_odd ''G2'' '''' (''M2'', ''Next Goal'') (''S3'', ''Away'') (''1.25'', ''1/4'') ex_pa3]"
proof -
  have h: "http_liveodds ex_world ''G1'' = Inr ex_resp"
    "http_liveodds ex_world ''G2'' = Inr ex_resp_pa_first"
    by (simp_all add: ex_world_def)
  have c: "concat (Results ex_resp) = [ex_mg1] @ ex_pa1 # [ex_pa2, ex_mg2, ex_pa3]"
    "concat (Results ex_resp_bare) = [ex_mg1] @ ex_pa_bare # [ex_pa1]"
    "concat (Results ex_resp_pa_first) = [] @ ex_ev # [ex_pa1, ex_mg2, ex_pa3]"
    by (simp_all add: ex_resp_def ex_resp_bare_def ex_resp_pa_first_def)
  have t: "field fraclib ex_pa1 ''type'' = ''PA''"
    "map_of ex_pa1 ''OD'' = Some (JString ''5/2'')"
    "map_of ex_pa1 ''ODDS'' = Some (JString ''7/4'')"
    "getOddsField fraclib ex_pa1 = (''5/2'', True)"
    "field fraclib ex_pa1 ''ID'' = ''S1''"
    "field fraclib ex_pa_bare ''type'' = ''PA''"
    "getOddsField fraclib ex_pa_bare = ('''', False)"
    "field fraclib ex_ev ''type'' = ''EV''"
    "map_of ex_ev ''OD'' = Some (JString ''9/1'')"
    by (simp_all add: field_def getOddsField_def ex_items)
  have d: "fracToDecimal fraclib ''5/2'' = (''3.5'', ''5/2'', True)"
    by (simp add: fracToDecimal_def frac_eval)
  have l: "w_lib ex_world = fraclib" "time_now ex_world g = 1700000000" for g
    by (simp_all add: ex_world_def)
  note od = odds_field_priority [where w = ex_world and item = ex_pa1 and gid = "''G1''"
      and resp = ex_resp and before = "[ex_mg1]" and rest = "[ex_pa2, ex_mg2, ex_pa3]"
      and sport = "''soccer''" and v = "JString ''5/2''",
      THEN conjunct2, THEN conjunct2, THEN conjunct1]
  note bare = odds_field_priority [where w = ex_world_bare and item = ex_pa_bare
      and gid = "''G1''" and resp = ex_resp_bare and before = "[ex_mg1]" and rest = "[ex_pa1]"
      and sport = "''soccer''",
      THEN conjunct2, THEN conjunct2, THEN conjunct2, THEN conjunct1]
  note other = odds_field_priority [where w = ex_world and item = ex_ev and gid = "''G2''"
      and resp = ex_resp_pa_first and before = "[]" and rest = "[ex_pa1, ex_mg2, ex_pa3]"
      and sport = "''''",
      THEN conjunct2, THEN conjunct2, THEN conjunct2, THEN conjunct2, THEN conjunct1]
  from od h c t have "\<exists>od more. fetchLiveOdds ex_world ''G1'' ''soccer'' = Inr (od # more) \<and>
      SelectionID od = ''S1'' \<and> PriceDec od = ''3.5'' \<and> PriceFrac od = ''5/2''"
    by (simp add: l ex_streams d)
  moreover from bare c t have "fetchLiveOdds ex_world_bare ''G1'' ''soccer'' =
     Inr [ex_odd ''G1'' ''soccer'' (''M1'', ''Fulltime Result'') (''S1'', ''Home'')
            (''3.5'', ''5/2'') ex_pa1]"
    by (simp add: ex_bare_fields ex_streams)
  moreover from other h c t have "fetchLiveOdds ex_world ''G2'' '''' =
     Inr [ex_odd ''G2'' '''' ('''', '''') (''S1'', ''Home'') (''3.5'', ''5/2'') ex_pa1,
          ex_odd ''G2'' '''' (''M2'', ''Next Goal'') (''S3'', ''Away'') (''1.25'', ''1/4'') ex_pa3]"
    by (simp add: l ex_streams)
  ultimately show ?thesis
    using h c t by (simp add: ex_bare_fields)
qed

section \<open>A PA record before any MG record\<close>

text \<open>
  C9. A \<open>PA\<close> record with an odds key that no \<open>MG\<close> record precedes is not skipped:
  \<open>fetchLiveOdds\<close> emits its LiveOdd, after the odds of the records before it, with
  the empty text as \<open>MarketID\<close> and as \<open>MarketName\<close>.
\<close>

theorem pa_before_any_mg:
  assumes "http_liveodds w gid = Inr resp"
    and "concat (Results resp) = before @ pa # rest"
    and "\<forall>x \<in> set before. field (w_lib w) x ''type'' \<noteq> ''MG''"
    and "field (w_lib w) pa ''type'' = ''PA''"
    and "snd (getOddsField (w_lib w) pa)"
  shows "\<exists>od more.
           fetchLiveOdds w gid sport =
             Inr (liveodds_of_stream (w_lib w) gid sport (time_now w gid) before @ od # more) \<and>
           MarketID od = '''' \<and> MarketName od = '''' \<and>
           SelectionID od = field (w_lib w) pa ''ID'' \<and>
           PriceFrac od = fst (snd (fracToDecimal (w_lib w) (fst (getOddsField (w_lib w) pa))))"
proof -
  let ?f = "odds_item (w_lib w) gid sport (time_now w gid)"
  let ?pre = "liveodds_of_stream (w_lib w) gid sport (time_now w gid) before"
  have ctx: "market_context (w_lib w) before = ('''', '''')"
    using assms(3) by (simp add: market_context_def Let_def filter_empty_conv)
  obtain od where od: "emitted (w_lib w) gid sport (time_now w gid) ('''', '''') pa = [od]"
    and props: "MarketID od = ''''" "MarketName od = ''''"
      "SelectionID od = field (w_lib w) pa ''ID''"
      "PriceFrac od = fst (snd (fracToDecimal (w_lib w) (fst (getOddsField (w_lib w) pa))))"
    using assms(4,5) by (simp add: emitted_def)
  have "foldl ?f ([], '''', '''') (before @ pa # rest) =
          foldl ?f (?pre @ [od], '''', '''') rest"
    using assms(4) by (simp add: foldl_odds_item ctx odds_item_emitted od)
  moreover obtain more where "fst (foldl ?f (?pre @ [od], '''', '''') rest) = (?pre @ [od]) @ more"
    using odds_item_extends by blast
  ultimately have "fetchLiveOdds w gid sport = Inr (?pre @ od # more)"
    using assms(1,2) by (simp add: fetchLiveOdds_def foldl_odds_group)
  with props show ?thesis by blast
qed

theorem pa_before_any_mg_witness:
  "http_liveodds ex_world ''G2'' = Inr ex_resp_pa_first \<and>
   concat (Results ex_resp_pa_first) = [ex_ev] @ ex_pa1 # [ex_mg2, ex_pa3] \<and>
   field fraclib ex_ev ''type'' = ''EV'' \<and>
   field fraclib ex_pa1 ''type'' = ''PA'' \<and>
   getOddsField fraclib ex_pa1 = (''5/2'', True) \<and>
   (\<exists>od more. fetchLiveOdds ex_world ''G2'' ''soccer'' = Inr (od # more) \<and>
      MarketID od = '''' \<and> MarketName od = '''' \<and> SelectionID od = ''S1'' \<and>
      PriceFrac od = ''5/2'')"
proof -
  have h: "http_liveodds ex_world ''G2'' = Inr ex_resp_pa_first"
    by (simp add: ex_world_def)
  have c: "concat (Results ex_resp_pa_first) = [ex_ev] @ ex_pa1 # [ex_mg2, ex_pa3]"
    by (simp add: ex_resp_pa_first_def)
  have l: "w_lib ex_world = fraclib"
    by (simp add: ex_world_def)
  have t: "field fraclib ex_ev ''type'' = ''EV''" "field fraclib ex_pa1 ''type'' = ''PA''"
    "getOddsField fraclib ex_pa1 = (''5/2'', True)" "field fraclib ex_pa1 ''ID'' = ''S1''"
    by (simp_all add: field_def getOddsField_def ex_items)
  have e: "liveodds_of_stream fraclib ''G2'' ''soccer'' (time_now ex_world ''G2'') [ex_ev] = []"
    by (simp add: liveodds_of_stream_def emitted_def t)
  have d: "fracToDecimal fraclib ''5/2'' = (''3.5'', ''5/2'', True)"
    by (simp add: fracToDecimal_def frac_eval)
  have "\<exists>od more.
      fetchLiveOdds ex_world ''G2'' ''soccer'' =
        Inr (liveodds_of_stream (w_lib ex_world) ''G2'' ''soccer'' (time_now ex_world ''G2'')
               [ex_ev] @ od # more) \<and>
      MarketID od = '''' \<and> MarketName od = '''' \<and>
      SelectionID od = field (w_lib ex_world) ex_pa1 ''ID'' \<and>
      PriceFrac od =
        fst (snd (fracToDecimal (w_lib ex_world) (fst (getOddsField (w_lib ex_world) ex_pa1))))"
    by (rule pa_before_any_mg [OF h c]) (simp_all add: l t)
  then have "\<exists>od more. fetchLiveOdds ex_world ''G2'' ''soccer'' = Inr (od # more) \<and>
      MarketID od = '''' \<and> MarketName od = '''' \<and> SelectionID od = ''S1'' \<and>
      PriceFrac od = ''5/2''"
    by (simp add: l t e d)
  with h c t show ?thesis
    by blast
qed

section \<open>Batches, upserts and the loop of /update-liveodds\<close>

lemma games_batch_ok:
  "games_batch w t d gs = (None, d') \<Longrightarrow>
     stmts d' = stmts d + length gs \<and> liveodds d' = liveodds d \<and>
     games d' = fold (\<lambda>g. AList.update (Game.GameID g) (game_row_of g t)) gs (games d) \<and>
     (\<forall>j < length gs. db_fault w (stmts d + j) = None)"
proof (induction gs arbitrary: d)
  case Nil
  then show ?case by simp
next
  case (Cons g gs)
  from Cons.prems have f: "db_fault w (stmts d) = None"
    by (simp split: option.splits)
  let ?d1 = "tick (d\<lparr>games := AList.update (Game.GameID g) (game_row_of g t) (games d)\<rparr>)"
  from Cons.prems f have "games_batch w t ?d1 gs = (None, d')"
    by simp
  from Cons.IH [OF this] f show ?case
    by (auto simp: tick_def less_Suc_eq_0_disj)
qed

lemma games_batch_err:
  "games_batch w t d gs = (Some e, d') \<Longrightarrow>
     \<exists>k < length gs. (\<forall>j < k. db_fault w (stmts d + j) = None) \<and>
        db_fault w (stmts d + k) = Some e"
proof (induction gs arbitrary: d)
  case Nil
  then show ?case by simp
next
  case (Cons g gs)
  show ?case
  proof (cases "db_fault w (stmts d)")
    case (Some e')
    with Cons.prems have "e' = e" by simp
    with Some show ?thesis by (intro exI [of _ 0]) simp
  next
    case None
    let ?d1 = "tick (d\<lparr>games := AList.update (Game.GameID g) (game_row_of g t) (games d)\<rparr>)"
    from Cons.prems None have "games_batch w t ?d1 gs = (Some e, d')"
      by simp
    from Cons.IH [OF this] obtain k where k: "k < length gs"
      "\<forall>j < k. db_fault w (stmts ?d1 + j) = None" "db_fault w (stmts ?d1 + k) = Some e"
      by blast
    show ?thesis
    proof (intro exI [of _ "Suc k"] conjI allI impI)
      show "Suc k < length (g # gs)" using k(1) by simp
      show "db_fault w (stmts d + Suc k) = Some e" using k(3) by (simp add: tick_def)
      fix j assume "j < Suc k"
      then show "db_fault w (stmts d + j) = None"
        using k(2) None by (cases j) (auto simp: tick_def)
    qed
  qed
qed

text \<open>
  The rows of \<open>games\<close> stay under distinct ids through \<open>upsertGames\<close>, whatever
  its outcome.
\<close>

lemma games_batch_distinct:
  "distinct (map fst (games d)) \<Longrightarrow> distinct (map fst (games (snd (games_batch w t d gs))))"
proof (induction gs arbitrary: d)
  case Nil
  then show ?case by simp
next
  case (Cons g gs)
  show ?case
  proof (cases "db_fault w (stmts d)")
    case (Some err)
    with Cons.prems show ?thesis by (simp add: tick_def)
  next
    case None
    let ?d1 = "tick (d\<lparr>games := AList.update (Game.GameID g) (game_row_of g t) (games d)\<rparr>)"
    from Cons.prems have "distinct (map fst (games ?d1))"
      by (simp add: tick_def distinct_update)
    from Cons.IH [OF this] None show ?thesis by simp
  qed
qed

lemma upsertGames_distinct:
  assumes "distinct (map fst (games d))"
  shows "distinct (map fst (games (snd (upsertGames w d gs))))"
proof -
  let ?d1 = "tick (d\<lparr>games := filter (\<lambda>(k, r). \<not> game_stale (db_current_date w (stmts d)) r)
                               (games d)\<rparr>)"
  from assms have d1: "distinct (map fst (games ?d1))"
    by (simp add: tick_def distinct_map_filter)
  from games_batch_distinct [OF d1, of w "db_now w (stmts ?d1)" gs] d1 assms show ?thesis
    by (auto simp: upsertGames_def Let_def tick_def split: option.splits prod.splits)
qed

lemma map_of_filter_stale:
  assumes "distinct (map fst al)" and "map_of al k = Some r" and "P r"
  shows "map_of (filter (\<lambda>(k, r). \<not> P r) al) k = None"
proof (rule ccontr)
  assume "map_of (filter (\<lambda>(k, r). \<not> P r) al) k \<noteq> None"
  then obtain r' where "map_of (filter (\<lambda>(k, r). \<not> P r) al) k = Some r'"
    by blast
  then have "(k, r') \<in> set (filter (\<lambda>(k, r). \<not> P r) al)"
    by (rule map_of_SomeD)
  then have "(k, r') \<in> set al" and "\<not> P r'"
    by auto
  with assms(1) have "map_of al k = Some r'"
    by simp
  with assms(2,3) \<open>\<not> P r'\<close> show False
    by simp
qed

lemma map_of_fold_update_find:
  "map_of (fold (\<lambda>g. AList.update (key g) (val g)) gs al) k =
     (case find (\<lambda>g. key g = k) (rev gs) of
        Some g \<Rightarrow> Some (val g)
      | None \<Rightarrow> map_of al k)"
  by (induction gs rule: rev_induct) (simp_all add: update_conv')

lemma find_in_set:
  "find P xs = Some x \<Longrightarrow> x \<in> set xs \<and> P x"
  by (induction xs) (auto split: if_splits)

lemma odds_batch_ok:
  "odds_batch w d os = (None, d') \<Longrightarrow>
     games d' = games d \<and>
     liveodds d' = fold (\<lambda>od. AList.update (odds_key od) (odds_row_of od)) os (liveodds d)"
proof (induction os arbitrary: d)
  case Nil
  then show ?case by simp
next
  case (Cons od os)
  from Cons.prems have f: "db_fault w (stmts d) = None"
    by (simp split: option.splits)
  let ?d1 = "tick (d\<lparr>liveodds := AList.update (odds_key od) (odds_row_of od) (liveodds d)\<rparr>)"
  from Cons.prems f have "odds_batch w ?d1 os = (None, d')"
    by simp
  from Cons.IH [OF this] show ?case
    by (simp add: tick_def)
qed

lemma insertLiveOdds_persists:
  assumes "insertLiveOdds w d odds = (None, d')" and "od \<in> set odds"
  shows "\<exists>od' \<in> set odds. odds_key od' = odds_key od \<and>
           map_of (liveodds d') (odds_key od) = Some (odds_row_of od')"
proof -
  from assms(2) have ne: "odds \<noteq> []" by auto
  let ?d1 = "tick (d\<lparr>liveodds := filter (\<lambda>(k, r). \<not> odds_stale (db_now w (stmts d)) r)
                                  (liveodds d)\<rparr>)"
  from assms(1) ne have "odds_batch w ?d1 odds = (None, d')"
    by (auto simp: insertLiveOdds_def Let_def split: option.splits prod.splits)
  from odds_batch_ok [OF this] have
    l: "liveodds d' = fold (\<lambda>od. AList.update (odds_key od) (odds_row_of od)) odds (liveodds ?d1)"
    by simp
  from assms(2) obtain od' where
    f: "find (\<lambda>x. odds_key x = odds_key od) (rev odds) = Some od'"
    by (cases "find (\<lambda>x. odds_key x = odds_key od) (rev odds)") (auto simp: find_None_iff)
  from find_in_set [OF this] have "od' \<in> set odds" and "odds_key od' = odds_key od"
    by simp_all
  moreover have "map_of (liveodds d') (odds_key od) = Some (odds_row_of od')"
    by (simp add: l map_of_fold_update_find f)
  ultimately show ?thesis by blast
qed

lemma liveodds_body_game_rows:
  "liveodds_body w (n, d) gid = (n + fst (game_rows w d gid), snd (game_rows w d gid))"
  by (auto simp: liveodds_body_def game_rows_def Let_def split: prod.splits sum.splits option.splits)

lemma liveodds_loop_total_rows:
  "foldl (liveodds_body w) (n, d) ids =
     (n + fst (total_rows w d ids), snd (total_rows w d ids))"
proof (induction ids arbitrary: n d)
  case Nil
  show ?case by simp
next
  case (Cons gid ids)
  show ?case
    by (simp add: liveodds_body_game_rows Cons.IH split: prod.splits)
qed

lemma getGameSport_tables:
  "games (snd (getGameSport w d gid)) = games d \<and>
   liveodds (snd (getGameSport w d gid)) = liveodds d"
  by (simp add: getGameSport_def tick_def split: option.splits)

lemma fetchLiveOdds_sport:
  assumes "fetchLiveOdds w gid sport = Inr odds" and "od \<in> set odds"
  shows "Sport od = sport \<and> GameID od = gid"
proof -
  from assms(1) obtain resp where r: "http_liveodds w gid = Inr resp"
    by (cases "http_liveodds w gid") (simp_all add: fetchLiveOdds_def)
  from fetchLiveOdds_stream [OF r, of sport] assms show ?thesis
    by (auto simp: liveodds_of_stream_def emitted_def split: if_splits)
qed

section \<open>The examples, evaluated\<close>

lemma parse_ex_times:
  "parseUnixMaybe ''1700003600'' = Some 1700003600"
  "parseUnixMaybe ''1699999000'' = Some 1699999000"
  by (simp_all add: parseUnixMaybe_def ParseInt_def frac_eval)

lemma ex_fetches:
  "fetchPreGames ex_world ''soccer'' = Inr [ex_game_p1]"
  "fetchPreGames ex_world ''tennis'' = Inl ''timeout''"
  "fetchLiveGames ex_world ''soccer'' = Inr [ex_game_g1]"
  "fetchLiveGames ex_world ''tennis'' = Inr []"
  by (simp_all add: fetchPreGames_def fetchLiveGames_def ex_world_def ex_pre_game_def
        ex_live_root_def field_def parse_ex_times ex_game_p1_def ex_game_g1_def)

lemma ex_all: "fetchAllGames ex_world = Inr [ex_game_p1, ex_game_g1]"
  by (simp add: fetchAllGames_def ex_fetches)

lemma ex_world_fields:
  "w_lib ex_world = fraclib"
  "db_fault ex_world n = None"
  "db_now ex_world n = 1700000000"
  "db_current_date ex_world n = 1699920000"
  "time_now ex_world gid = 1700000000"
  by (simp_all add: ex_world_def)

lemma ex_upsert:
  "upsertGames ex_world ex_db [ex_game_p1, ex_game_g1] =
     (None,
      \<lparr>games = [(''G3'', ex_row ''tennis'' ''live'' ''1'' None),
                (''G1'', game_row_of ex_game_g1 1700000000),
                (''P1'', game_row_of ex_game_p1 1700000000)],
       liveodds = [], stmts = 3\<rparr>)"
  by (simp add: upsertGames_def ex_world_fields game_stale_def tick_def ex_db_def
        ex_row_def ex_game_p1_def ex_game_g1_def)

lemma ex_sync:
  "sync_games ex_world ex_db =
     (GamesSynced 2,
      \<lparr>games = [(''G3'', ex_row ''tennis'' ''live'' ''1'' None),
                (''G1'', game_row_of ex_game_g1 1700000000),
                (''P1'', game_row_of ex_game_p1 1700000000)],
       liveodds = [], stmts = 3\<rparr>)"
  by (simp add: sync_games_def ex_all ex_upsert)

lemma ex_fetch_odds:
  "fetchLiveOdds ex_world ''G1'' ''soccer'' = Inr ex_odds_g1"
  "fetchLiveOdds ex_world ''G3'' sport = Inl ''timeout''"
  "fetchLiveOdds ex_world ''G2'' '''' =
     Inr [ex_odd ''G2'' '''' ('''', '''') (''S1'', ''Home'') (''3.5'', ''5/2'') ex_pa1,
          ex_odd ''G2'' '''' (''M2'', ''Next Goal'') (''S3'', ''Away'') (''1.25'', ''1/4'') ex_pa3]"
  by (simp_all add: odds_eval ex_world_def ex_items frac_eval ex_odds_g1_def ex_odd_def)

lemma fetch_games_db_fault:
  "fetchPreGames (w\<lparr>db_fault := f\<rparr>) sport = fetchPreGames w sport"
  "fetchLiveGames (w\<lparr>db_fault := f\<rparr>) sport = fetchLiveGames w sport"
  by (simp_all add: fetchPreGames_def fetchLiveGames_def
        split: sum.splits option.splits jvalue.splits)

lemma fetch_db_fault:
  "fetchAllGames (w\<lparr>db_fault := f\<rparr>) = fetchAllGames w"
  "fetchLiveOdds (w\<lparr>db_fault := f\<rparr>) gid sport = fetchLiveOdds w gid sport"
  by (simp_all add: fetchAllGames_def fetch_games_db_fault fetchLiveOdds_def split: sum.splits)

lemma ex_fault_fields:
  "db_fault (ex_world_fault k) n = (if n = k then Some ''deadlock'' else None)"
  "db_now (ex_world_fault k) n = 1700000000"
  "db_current_date (ex_world_fault k) n = 1699920000"
  "fetchAllGames (ex_world_fault k) = fetchAllGames ex_world"
  "fetchLiveOdds (ex_world_fault k) gid sport = fetchLiveOdds ex_world gid sport"
  by (simp_all add: ex_world_fault_def fetch_db_fault ex_world_fields)

lemma ex_rows_before_fault:
  "db_rows_before_fault ex_world n = None"
  "db_rows_before_fault (ex_world_fault k) n = None"
  by (simp_all add: ex_world_fault_def ex_world_def)

lemma ex_down_fields:
  "fetchAllGames ex_world_down = Inr []"
  "db_current_date ex_world_down n = 1699920000"
  by (simp_all add: ex_world_down_def ex_world_def fetchAllGames_def fetchPreGames_def
        fetchLiveGames_def)

lemma ex_old_row:
  "distinct (map fst (games ex_db))"
  "stmts ex_db = 0"
  "map_of (games ex_db) ''OLD'' = Some (ex_row ''soccer'' ''pre'' ''3'' (Some 1699000000))"
  "game_stale 1699920000 (ex_row ''soccer'' ''pre'' ''3'' (Some 1699000000))"
  by (simp_all add: ex_db_def game_stale_def ex_row_def)

lemma ex_upsert_fault:
  "upsertGames (ex_world_fault 0) ex_db [ex_game_p1, ex_game_g1] =
     (Some ''failed to delete old games: deadlock'', tick ex_db)"
  "upsertGames (ex_world_fault 2) ex_db [ex_game_p1, ex_game_g1] =
     (Some ''deadlock'',
      \<lparr>games = [(''G3'', ex_row ''tennis'' ''live'' ''1'' None),
                (''G1'', ex_row ''soccer'' ''live'' ''1'' (Some 1699999000))],
       liveodds = [], stmts = 3\<rparr>)"
  by (simp_all add: upsertGames_def ex_fault_fields game_stale_def tick_def ex_db_def
        ex_row_def ex_game_p1_def ex_game_g1_def)

lemma ex_ids: "fetchLiveGameIDs ex_world ex_db = (Inr [''G3'', ''G1''], tick ex_db)"
  by (simp add: fetchLiveGameIDs_def live_game_ids_def ex_world_fields ex_db_def ex_row_def)

lemma ex_live_ids: "live_game_ids ex_db = [''G3'', ''G1'']"
  by (simp add: live_game_ids_def ex_db_def ex_row_def)

lemma ex_query_fault_fields:
  "db_fault ex_world_query_fault n = (if n = 0 then Some ''deadlock'' else None)"
  "db_rows_before_fault ex_world_query_fault n = Some 1"
  "fetchLiveOdds ex_world_query_fault gid sport = fetchLiveOdds ex_world gid sport"
  by (simp_all add: ex_world_query_fault_def fetchLiveOdds_def split: sum.splits)

lemma ex_query_fault_rows:
  "game_rows ex_world_query_fault (tick ex_db) ''G3'' = (0, tick (tick ex_db))"
  by (simp add: game_rows_def getGameSport_def ex_query_fault_fields ex_fetch_odds tick_def
        ex_db_def ex_row_def)

lemma ex_sport:
  "getGameSport ex_world ex_db ''G3'' = (Inr ''tennis'', tick ex_db)"
  "getGameSport ex_world (tick ex_db) ''G3'' = (Inr ''tennis'', tick (tick ex_db))"
  "getGameSport ex_world (tick (tick ex_db)) ''G1'' = (Inr ''soccer'', tick (tick (tick ex_db)))"
  "getGameSport ex_world ex_db ''G2'' = (Inl ''no rows in result set'', tick ex_db)"
  "getGameSport (ex_world_fault 3) ex_db ''G1'' = (Inr ''soccer'', tick ex_db)"
  by (simp_all add: getGameSport_def ex_world_fields ex_fault_fields ex_db_def ex_row_def tick_def)

lemma ex_insert:
  "insertLiveOdds ex_world (tick (tick (tick ex_db))) ex_odds_g1 =
     (None, \<lparr>games = games ex_db, liveodds = ex_odds_rows, stmts = 7\<rparr>)"
  by (simp add: insertLiveOdds_def ex_world_fields odds_stale_def tick_def ex_db_def
        ex_odds_g1_def ex_odd_def odds_key_def ex_odds_rows_def)

lemma ex_insert_fault:
  "insertLiveOdds (ex_world_fault 3) (tick ex_db) ex_odds_g1 =
     (Some ''deadlock'', \<lparr>games = games ex_db, liveodds = [], stmts = 4\<rparr>)"
  by (simp add: insertLiveOdds_def ex_fault_fields odds_stale_def tick_def ex_db_def
        ex_odds_g1_def ex_odd_def odds_key_def)

section \<open>Staleness eviction for games\<close>

text \<open>
  C5, as the code has it. \<open>upsertGames\<close> returns before its DELETE when the list is
  empty, so only a run that aggregates at least one game purges. For such a run whose
  DELETE does not fail, every row of a game whose \<open>starts_at\<close> is before the current
  date is deleted before the run writes: after the run the game's id is absent from the
  store, unless the run succeeded and its own batch wrote a row under that id (then the
  row is the one that the batch wrote).
\<close>

theorem stale_games_purged:
  assumes "distinct (map fst (games d))"
    and "fetchAllGames w = Inr all" and "all \<noteq> []"
    and "db_fault w (stmts d) = None"
    and "sync_games w d = (reply, d')"
    and "map_of (games d) k = Some r"
    and "game_stale (db_current_date w (stmts d)) r"
  shows "map_of (games d') k = None \<or>
         (reply = GamesSynced (length all) \<and>
          (\<exists>g \<in> set all. Game.GameID g = k \<and>
             map_of (games d') k = Some (game_row_of g (db_now w (Suc (stmts d))))))"
proof -
  let ?d1 = "tick (d\<lparr>games := filter (\<lambda>(k, r). \<not> game_stale (db_current_date w (stmts d)) r)
                               (games d)\<rparr>)"
  have s: "stmts ?d1 = Suc (stmts d)"
    by (simp add: tick_def)
  have purged: "map_of (games ?d1) k = None"
    using map_of_filter_stale [OF assms(1,6), of "game_stale (db_current_date w (stmts d))"] assms(7)
    by (simp add: tick_def)
  obtain res d2 where batch: "games_batch w (db_now w (stmts ?d1)) ?d1 all = (res, d2)"
    by (cases "games_batch w (db_now w (stmts ?d1)) ?d1 all")
  show ?thesis
  proof (cases res)
    case (Some err)
    with batch assms(2-5) have "games d' = games ?d1"
      by (auto simp: sync_games_def upsertGames_def Let_def)
    with purged show ?thesis by simp
  next
    case None
    with batch assms(2-5) have d': "d' = d2" and reply: "reply = GamesSynced (length all)"
      by (auto simp: sync_games_def upsertGames_def Let_def)
    from games_batch_ok [OF batch [unfolded None]] have
      g': "games d' =
             fold (\<lambda>g. AList.update (Game.GameID g) (game_row_of g (db_now w (Suc (stmts d)))))
               all (games ?d1)"
      by (simp add: s d')
    show ?thesis
    proof (cases "find (\<lambda>g. Game.GameID g = k) (rev all)")
      case None
      then show ?thesis
        by (simp add: g' map_of_fold_update_find purged)
    next
      case (Some g)
      from find_in_set [OF this] have "g \<in> set all" and "Game.GameID g = k"
        by simp_all
      moreover have "map_of (games d') k = Some (game_row_of g (db_now w (Suc (stmts d))))"
        by (simp add: g' map_of_fold_update_find Some)
      ultimately show ?thesis
        using reply by blast
    qed
  qed
qed

theorem stale_games_purged_witness:
  "distinct (map fst (games ex_db)) \<and>
   fetchAllGames ex_world = Inr [ex_game_p1, ex_game_g1] \<and>
   db_fault ex_world (stmts ex_db) = None \<and>
   map_of (games ex_db) ''OLD'' = Some (ex_row ''soccer'' ''pre'' ''3'' (Some 1699000000)) \<and>
   game_stale (db_current_date ex_world (stmts ex_db))
     (ex_row ''soccer'' ''pre'' ''3'' (Some 1699000000)) \<and>
   fst (sync_games ex_world ex_db) = GamesSynced 2 \<and>
   map fst (games (snd (sync_games ex_world ex_db))) = [''G3'', ''G1'', ''P1''] \<and>
   map_of (games (snd (sync_games ex_world ex_db))) ''OLD'' = None"
proof -
  have h: "[ex_game_p1, ex_game_g1] \<noteq> []"
    "sync_games ex_world ex_db = (fst (sync_games ex_world ex_db), snd (sync_games ex_world ex_db))"
    "game_stale (db_current_date ex_world (stmts ex_db))
       (ex_row ''soccer'' ''pre'' ''3'' (Some 1699000000))"
    by (simp_all add: ex_world_fields ex_old_row)
  have ids: "\<not> (\<exists>g \<in> set [ex_game_p1, ex_game_g1]. Game.GameID g = ''OLD'')"
    by (simp add: ex_game_p1_def ex_game_g1_def)
  from stale_games_purged [OF ex_old_row(1) ex_all h(1) ex_world_fields(2) h(2) ex_old_row(3) h(3)]
    ids
  have "map_of (games (snd (sync_games ex_world ex_db))) ''OLD'' = None"
    by blast
  then show ?thesis
    using h(3) by (simp add: ex_old_row ex_all ex_world_fields ex_sync)
qed

text \<open>
  The claim as the specification states it fails for a run that aggregates no game: with
  the upstream API down, the run reports success with count 0 and leaves the store as it
  was, the row of the game OLD (which started before the current date) included.
\<close>

theorem stale_games_empty_run_counterexample:
  "fetchAllGames ex_world_down = Inr [] \<and>
   sync_games ex_world_down ex_db = (GamesSynced 0, ex_db) \<and>
   map_of (games ex_db) ''OLD'' = Some (ex_row ''soccer'' ''pre'' ''3'' (Some 1699000000)) \<and>
   game_stale (db_current_date ex_world_down (stmts ex_db))
     (ex_row ''soccer'' ''pre'' ''3'' (Some 1699000000))"
  by (simp add: sync_games_def upsertGames_def ex_down_fields ex_old_row)

section \<open>Empty batches\<close>

text \<open>
  C6. With an empty list, \<open>upsertGames\<close> and \<open>insertLiveOdds\<close> return success and
  leave the store as it is: no row is deleted, none is inserted, and no statement is
  sent (the count of statements is part of the store).
\<close>

theorem empty_batch_noop:
  "upsertGames w d [] = (None, d) \<and> insertLiveOdds w d [] = (None, d)"
  by (simp add: upsertGames_def insertLiveOdds_def)

section \<open>Best-effort aggregation of the games\<close>

text \<open>
  C7. \<open>fetchAllGames\<close> fetches pre-match soccer, pre-match tennis, live soccer and
  live tennis in this order, and returns the lists of the fetches that succeeded, in
  that order, one after the other; a fetch that fails contributes nothing and stops no
  other fetch, and \<open>fetchAllGames\<close> itself never fails. The handler hands that list to
  \<open>upsertGames\<close> and answers with the length of the list on success and with the
  error of \<open>upsertGames\<close> otherwise; that error is the one of the first statement that
  failed (with the prefix of the DELETE when it is the DELETE).
\<close>

theorem sync_games_best_effort:
  "fetchAllGames w =
     Inr (concat (map (\<lambda>r. case r of Inl err \<Rightarrow> [] | Inr gs \<Rightarrow> gs)
            [fetchPreGames w ''soccer'', fetchPreGames w ''tennis'',
             fetchLiveGames w ''soccer'', fetchLiveGames w ''tennis''])) \<and>
   (\<forall>all. fetchAllGames w = Inr all \<longrightarrow>
      sync_games w d =
        (case upsertGames w d all of
           (None, d') \<Rightarrow> (GamesSynced (length all), d')
         | (Some err, d') \<Rightarrow> (Error500 err, d'))) \<and>
   (\<forall>gs err d'. upsertGames w d gs = (Some err, d') \<longrightarrow>
      (\<exists>k e. k \<le> length gs \<and> (\<forall>j < k. db_fault w (stmts d + j) = None) \<and>
         db_fault w (stmts d + k) = Some e \<and>
         err = (if k = 0 then ''failed to delete old games: '' @ e else e)))"
proof (intro conjI allI impI)
  show "fetchAllGames w =
     Inr (concat (map (\<lambda>r. case r of Inl err \<Rightarrow> [] | Inr gs \<Rightarrow> gs)
            [fetchPreGames w ''soccer'', fetchPreGames w ''tennis'',
             fetchLiveGames w ''soccer'', fetchLiveGames w ''tennis'']))"
    by (simp add: fetchAllGames_def Let_def split: sum.splits)
next
  fix all
  assume "fetchAllGames w = Inr all"
  then show "sync_games w d =
        (case upsertGames w d all of
           (None, d') \<Rightarrow> (GamesSynced (length all), d')
         | (Some err, d') \<Rightarrow> (Error500 err, d'))"
    by (simp add: sync_games_def split: prod.splits option.splits)
next
  fix gs err d'
  assume up: "upsertGames w d gs = (Some err, d')"
  then have ne: "gs \<noteq> []"
    by (auto simp: upsertGames_def)
  show "\<exists>k e. k \<le> length gs \<and> (\<forall>j < k. db_fault w (stmts d + j) = None) \<and>
         db_fault w (stmts d + k) = Some e \<and>
         err = (if k = 0 then ''failed to delete old games: '' @ e else e)"
  proof (cases "db_fault w (stmts d)")
    case (Some e)
    with up ne have "err = ''failed to delete old games: '' @ e"
      by (auto simp: upsertGames_def)
    with Some show ?thesis
      by (intro exI [of _ 0] exI [of _ e]) simp
  next
    case None
    let ?d1 = "tick (d\<lparr>games := filter (\<lambda>(k, r). \<not> game_stale (db_current_date w (stmts d)) r)
                                 (games d)\<rparr>)"
    from up ne None obtain d2 where "games_batch w (db_now w (stmts ?d1)) ?d1 gs = (Some err, d2)"
      by (auto simp: upsertGames_def Let_def split: prod.splits option.splits)
    from games_batch_err [OF this] obtain k where k: "k < length gs"
      "\<forall>j < k. db_fault w (stmts ?d1 + j) = None" "db_fault w (stmts ?d1 + k) = Some err"
      by blast
    show ?thesis
    proof (intro exI [of _ "Suc k"] exI [of _ err] conjI allI impI)
      show "Suc k \<le> length gs" using k(1) by simp
      show "db_fault w (stmts d + Suc k) = Some err" using k(3) by (simp add: tick_def)
      show "err = (if Suc k = 0 then ''failed to delete old games: '' @ err else err)" by simp
      fix j assume "j < Suc k"
      then show "db_fault w (stmts d + j) = None"
        using k(2) None by (cases j) (auto simp: tick_def)
    qed
  qed
qed

theorem sync_games_best_effort_witness:
  "fetchPreGames ex_world ''soccer'' = Inr [ex_game_p1] \<and>
   fetchPreGames ex_world ''tennis'' = Inl ''timeout'' \<and>
   fetchLiveGames ex_world ''soccer'' = Inr [ex_game_g1] \<and>
   fetchLiveGames ex_world ''tennis'' = Inr [] \<and>
   fetchAllGames ex_world = Inr [ex_game_p1, ex_game_g1] \<and>
   fst (sync_games ex_world ex_db) = GamesSynced 2 \<and>
   fst (sync_games (ex_world_fault 2) ex_db) = Error500 ''deadlock'' \<and>
   db_fault (ex_world_fault 2) (stmts ex_db + 0) = None \<and>
   db_fault (ex_world_fault 2) (stmts ex_db + 1) = None \<and>
   db_fault (ex_world_fault 2) (stmts ex_db + 2) = Some ''deadlock'' \<and>
   fst (sync_games (ex_world_fault 0) ex_db) = Error500 ''failed to delete old games: deadlock''"
proof -
  note t = sync_games_best_effort [of ex_world ex_db]
  note t2 = sync_games_best_effort [of "ex_world_fault 2" ex_db]
  note t0 = sync_games_best_effort [of "ex_world_fault 0" ex_db]
  from t have "fetchAllGames ex_world = Inr [ex_game_p1, ex_game_g1]"
    by (simp add: ex_fetches)
  moreover from t have "fst (sync_games ex_world ex_db) = GamesSynced 2"
    by (simp add: ex_all ex_upsert)
  moreover from t2 have "fst (sync_games (ex_world_fault 2) ex_db) = Error500 ''deadlock''"
    by (simp add: ex_fault_fields ex_all ex_upsert_fault)
  moreover from t0 have
    "fst (sync_games (ex_world_fault 0) ex_db) = Error500 ''failed to delete old games: deadlock''"
    by (simp add: ex_fault_fields ex_all ex_upsert_fault)
  ultimately show ?thesis
    by (simp add: ex_fetches ex_fault_fields ex_old_row)
qed

section \<open>Per-game isolation of the live-odds sync\<close>

text \<open>
  C8. In the loop of /update-liveodds, a game whose odds fetch fails adds nothing to
  the count and changes no row, a game whose insert fails adds nothing to the count,
  and in both cases the loop goes on with the remaining ids. A game whose fetch and
  insert succeed adds the number of its odds, and the remaining ids are processed from
  the store in which these odds are persisted. Once the live game ids are read, the
  handler answers with the total of the odds rows of the games in order. That also holds
  when the SELECT of the ids fails while it executes: the error stays unread in
  \<open>rows.Err()\<close>, the ids read before it are processed, and the answer is the total
  over them. Only an error that \<open>pool.Query\<close> itself returns is answered with a 500.
\<close>

theorem liveodds_per_game_isolation:
  "(\<forall>err. fetchLiveOdds w gid
             (case fst (getGameSport w d gid) of Inl e \<Rightarrow> '''' | Inr s \<Rightarrow> s) = Inl err \<longrightarrow>
       foldl (liveodds_body w) (n, d) (gid # rest) =
         foldl (liveodds_body w) (n, snd (getGameSport w d gid)) rest \<and>
       games (snd (getGameSport w d gid)) = games d \<and>
       liveodds (snd (getGameSport w d gid)) = liveodds d) \<and>
   (\<forall>odds err d2.
       fetchLiveOdds w gid
         (case fst (getGameSport w d gid) of Inl e \<Rightarrow> '''' | Inr s \<Rightarrow> s) = Inr odds \<and>
       insertLiveOdds w (snd (getGameSport w d gid)) odds = (Some err, d2) \<longrightarrow>
       foldl (liveodds_body w) (n, d) (gid # rest) = foldl (liveodds_body w) (n, d2) rest) \<and>
   (\<forall>odds d2.
       fetchLiveOdds w gid
         (case fst (getGameSport w d gid) of Inl e \<Rightarrow> '''' | Inr s \<Rightarrow> s) = Inr odds \<and>
       insertLiveOdds w (snd (getGameSport w d gid)) odds = (None, d2) \<longrightarrow>
       foldl (liveodds_body w) (n, d) (gid # rest) =
         foldl (liveodds_body w) (n + length odds, d2) rest \<and>
       (\<forall>od \<in> set odds. \<exists>od' \<in> set odds. odds_key od' = odds_key od \<and>
          map_of (liveodds d2) (odds_key od) = Some (odds_row_of od'))) \<and>
   (\<forall>gameIDs d0. fetchLiveGameIDs w d = (Inr gameIDs, d0) \<longrightarrow>
       update_liveodds w d =
         (OddsUpdated (fst (total_rows w d0 gameIDs)), snd (total_rows w d0 gameIDs))) \<and>
   (\<forall>err k. db_fault w (stmts d) = Some err \<and> db_rows_before_fault w (stmts d) = Some k \<longrightarrow>
       update_liveodds w d =
         (OddsUpdated (fst (total_rows w (tick d) (take k (live_game_ids d)))),
          snd (total_rows w (tick d) (take k (live_game_ids d))))) \<and>
   (\<forall>err. db_fault w (stmts d) = Some err \<and> db_rows_before_fault w (stmts d) = None \<longrightarrow>
       update_liveodds w d = (Error500 err, tick d))"
proof (intro conjI allI impI)
  fix err
  assume "fetchLiveOdds w gid
            (case fst (getGameSport w d gid) of Inl e \<Rightarrow> '''' | Inr s \<Rightarrow> s) = Inl err"
  then show "foldl (liveodds_body w) (n, d) (gid # rest) =
         foldl (liveodds_body w) (n, snd (getGameSport w d gid)) rest"
    by (cases "getGameSport w d gid") (simp add: liveodds_body_def)
next
  show "games (snd (getGameSport w d gid)) = games d"
    by (simp add: getGameSport_tables)
next
  show "liveodds (snd (getGameSport w d gid)) = liveodds d"
    by (simp add: getGameSport_tables)
next
  fix odds err d2
  assume "fetchLiveOdds w gid
            (case fst (getGameSport w d gid) of Inl e \<Rightarrow> '''' | Inr s \<Rightarrow> s) = Inr odds \<and>
          insertLiveOdds w (snd (getGameSport w d gid)) odds = (Some err, d2)"
  then show "foldl (liveodds_body w) (n, d) (gid # rest) = foldl (liveodds_body w) (n, d2) rest"
    by (cases "getGameSport w d gid") (simp add: liveodds_body_def)
next
  fix odds d2
  assume a: "fetchLiveOdds w gid
            (case fst (getGameSport w d gid) of Inl e \<Rightarrow> '''' | Inr s \<Rightarrow> s) = Inr odds \<and>
          insertLiveOdds w (snd (getGameSport w d gid)) odds = (None, d2)"
  then show "foldl (liveodds_body w) (n, d) (gid # rest) =
         foldl (liveodds_body w) (n + length odds, d2) rest"
    by (cases "getGameSport w d gid") (simp add: liveodds_body_def)
  from a show "\<forall>od \<in> set odds. \<exists>od' \<in> set odds. odds_key od' = odds_key od \<and>
          map_of (liveodds d2) (odds_key od) = Some (odds_row_of od')"
    using insertLiveOdds_persists by blast
next
  fix gameIDs d0
  assume "fetchLiveGameIDs w d = (Inr gameIDs, d0)"
  then show "update_liveodds w d =
         (OddsUpdated (fst (total_rows w d0 gameIDs)), snd (total_rows w d0 gameIDs))"
    by (simp add: update_liveodds_def liveodds_loop_total_rows split: prod.splits)
next
  fix err k
  assume "db_fault w (stmts d) = Some err \<and> db_rows_before_fault w (stmts d) = Some k"
  then show "update_liveodds w d =
         (OddsUpdated (fst (total_rows w (tick d) (take k (live_game_ids d)))),
          snd (total_rows w (tick d) (take k (live_game_ids d))))"
    by (simp add: update_liveodds_def fetchLiveGameIDs_def liveodds_loop_total_rows
          split: prod.splits)
next
  fix err
  assume "db_fault w (stmts d) = Some err \<and> db_rows_before_fault w (stmts d) = None"
  then show "update_liveodds w d = (Error500 err, tick d)"
    by (simp add: update_liveodds_def fetchLiveGameIDs_def)
qed

theorem liveodds_per_game_isolation_witness:
  "fetchLiveGameIDs ex_world ex_db = (Inr [''G3'', ''G1''], tick ex_db) \<and>
   fetchLiveOdds ex_world ''G3'' ''tennis'' = Inl ''timeout'' \<and>
   fetchLiveOdds ex_world ''G1'' ''soccer'' = Inr ex_odds_g1 \<and>
   length ex_odds_g1 = 3 \<and>
   foldl (liveodds_body ex_world) (0, tick ex_db) [''G3'', ''G1''] =
     (3, \<lparr>games = games ex_db, liveodds = ex_odds_rows, stmts = 7\<rparr>) \<and>
   update_liveodds ex_world ex_db =
     (OddsUpdated 3, \<lparr>games = games ex_db, liveodds = ex_odds_rows, stmts = 7\<rparr>) \<and>
   insertLiveOdds (ex_world_fault 3) (tick ex_db) ex_odds_g1 =
     (Some ''deadlock'', \<lparr>games = games ex_db, liveodds = [], stmts = 4\<rparr>) \<and>
   foldl (liveodds_body (ex_world_fault 3)) (0, ex_db) [''G1''] =
     (0, \<lparr>games = games ex_db, liveodds = [], stmts = 4\<rparr>) \<and>
   db_fault ex_world_query_fault (stmts ex_db) = Some ''deadlock'' \<and>
   db_rows_before_fault ex_world_query_fault (stmts ex_db) = Some 1 \<and>
   take 1 (live_game_ids ex_db) = [''G3''] \<and>
   update_liveodds ex_world_query_fault ex_db = (OddsUpdated 0, tick (tick ex_db)) \<and>
   db_fault (ex_world_fault 0) (stmts ex_db) = Some ''deadlock'' \<and>
   db_rows_before_fault (ex_world_fault 0) (stmts ex_db) = None \<and>
   update_liveodds (ex_world_fault 0) ex_db = (Error500 ''deadlock'', tick ex_db)"
proof -
  let ?final = "\<lparr>games = games ex_db, liveodds = ex_odds_rows, stmts = 7\<rparr>"
  note skip = liveodds_per_game_isolation [of ex_world "''G3''" "tick ex_db" 0 "[''G1'']",
                THEN conjunct1, rule_format, of "''timeout''"]
  note keep = liveodds_per_game_isolation [of ex_world "''G1''" "tick (tick ex_db)" 0 "[]",
                THEN conjunct2, THEN conjunct2, THEN conjunct1, rule_format,
                of ex_odds_g1 ?final]
  note fail = liveodds_per_game_isolation [of "ex_world_fault 3" "''G1''" ex_db 0 "[]",
                THEN conjunct2, THEN conjunct1, rule_format,
                of ex_odds_g1 "''deadlock''" "\<lparr>games = games ex_db, liveodds = [], stmts = 4\<rparr>"]
  note total = liveodds_per_game_isolation [of ex_world "''G3''" ex_db 0 "[]",
                THEN conjunct2, THEN conjunct2, THEN conjunct2, THEN conjunct1, rule_format,
                OF ex_ids]
  note partial = liveodds_per_game_isolation [of ex_world_query_fault "''G3''" ex_db 0 "[]",
                THEN conjunct2, THEN conjunct2, THEN conjunct2, THEN conjunct2, THEN conjunct1,
                rule_format, of "''deadlock''" 1]
  note refused = liveodds_per_game_isolation [of "ex_world_fault 0" "''G3''" ex_db 0 "[]",
                THEN conjunct2, THEN conjunct2, THEN conjunct2, THEN conjunct2, THEN conjunct2,
                rule_format, of "''deadlock''"]
  have q: "db_fault ex_world_query_fault (stmts ex_db) = Some ''deadlock''"
    "db_rows_before_fault ex_world_query_fault (stmts ex_db) = Some 1"
    "take 1 (live_game_ids ex_db) = [''G3'']"
    "db_fault (ex_world_fault 0) (stmts ex_db) = Some ''deadlock''"
    "db_rows_before_fault (ex_world_fault 0) (stmts ex_db) = None"
    by (simp_all add: ex_query_fault_fields ex_fault_fields ex_rows_before_fault ex_old_row
          ex_live_ids)
  from partial q have part:
    "update_liveodds ex_world_query_fault ex_db = (OddsUpdated 0, tick (tick ex_db))"
    by (simp add: ex_query_fault_rows)
  from refused q have ref:
    "update_liveodds (ex_world_fault 0) ex_db = (Error500 ''deadlock'', tick ex_db)"
    by simp
  have n: "length ex_odds_g1 = 3"
    by (simp add: ex_odds_g1_def)
  from skip have "foldl (liveodds_body ex_world) (0, tick ex_db) [''G3'', ''G1''] =
      foldl (liveodds_body ex_world) (0, tick (tick ex_db)) [''G1'']"
    by (simp add: ex_sport ex_fetch_odds)
  also from keep have "\<dots> = foldl (liveodds_body ex_world) (0 + length ex_odds_g1, ?final) []"
    by (simp add: ex_sport ex_fetch_odds ex_insert)
  finally have loop: "foldl (liveodds_body ex_world) (0, tick ex_db) [''G3'', ''G1''] = (3, ?final)"
    by (simp add: n)
  from fail have failed: "foldl (liveodds_body (ex_world_fault 3)) (0, ex_db) [''G1''] =
      (0, \<lparr>games = games ex_db, liveodds = [], stmts = 4\<rparr>)"
    by (simp add: ex_sport ex_fault_fields ex_fetch_odds ex_insert_fault)
  define T where "T = total_rows ex_world (tick ex_db) [''G3'', ''G1'']"
  note lt = liveodds_loop_total_rows [of ex_world 0 "tick ex_db" "[''G3'', ''G1'']", folded T_def]
  from loop [symmetric] lt have "(3, ?final) = (0 + fst T, snd T)"
    by (rule trans)
  then have "fst T = 3" and "snd T = ?final"
    by (simp_all only: prod.inject add_0)
  with total [folded T_def] have "update_liveodds ex_world ex_db = (OddsUpdated 3, ?final)"
    by simp
  with loop failed n part ref q show ?thesis
    by (simp add: ex_ids ex_fetch_odds ex_insert_fault)
qed

section \<open>A failing sport lookup\<close>

text \<open>
  C10. When \<open>getGameSport\<close> fails for a game, the loop does not skip the game: it
  fetches the odds with the empty text as sport and goes on as for any other game, and
  every LiveOdd of that fetch has the empty text as \<open>Sport\<close>.
\<close>

theorem sport_lookup_error_discarded:
  assumes "getGameSport w d gid = (Inl err, d1)"
  shows "liveodds_body w (n, d) gid =
           (case fetchLiveOdds w gid '''' of
              Inl e \<Rightarrow> (n, d1)
            | Inr odds \<Rightarrow>
                (case insertLiveOdds w d1 odds of
                   (Some e, d2) \<Rightarrow> (n, d2)
                 | (None, d2) \<Rightarrow> (n + length odds, d2))) \<and>
         (\<forall>odds. fetchLiveOdds w gid '''' = Inr odds \<longrightarrow> (\<forall>od \<in> set odds. Sport od = ''''))"
  using assms fetchLiveOdds_sport [of w gid "''''"]
  by (auto simp: liveodds_body_def)

theorem sport_lookup_error_discarded_witness:
  "getGameSport ex_world ex_db ''G2'' = (Inl ''no rows in result set'', tick ex_db) \<and>
   (\<exists>odds. fetchLiveOdds ex_world ''G2'' '''' = Inr odds \<and> map Sport odds = ['''', ''''] \<and>
      map SelectionID odds = [''S1'', ''S3'']) \<and>
   fst (liveodds_body ex_world (0, ex_db) ''G2'') = 2"
proof -
  note t = sport_lookup_error_discarded [OF ex_sport(4), of 0]
  have i: "\<exists>d2. insertLiveOdds ex_world (tick ex_db)
              [ex_odd ''G2'' '''' ('''', '''') (''S1'', ''Home'') (''3.5'', ''5/2'') ex_pa1,
               ex_odd ''G2'' '''' (''M2'', ''Next Goal'') (''S3'', ''Away'') (''1.25'', ''1/4'') ex_pa3]
            = (None, d2)"
    by (simp add: insertLiveOdds_def ex_world_fields odds_stale_def tick_def ex_db_def
          ex_odd_def odds_key_def)
  from t i have "fst (liveodds_body ex_world (0, ex_db) ''G2'') = 2"
    by (auto simp: ex_fetch_odds)
  moreover from t have "\<exists>odds. fetchLiveOdds ex_world ''G2'' '''' = Inr odds \<and>
      map Sport odds = ['''', ''''] \<and> map SelectionID odds = [''S1'', ''S3'']"
    by (simp add: ex_fetch_odds ex_odd_def)
  ultimately show ?thesis
    by (simp add: ex_sport)
qed

end
